theory Spec2Isabelle
  imports Complex_Main
begin

section \<open>Scalars\<close>

text \<open>
  The entries of a torch float tensor and the Python floats of \<open>fit\<close> (\<open>loss\<close>,
  \<open>loss_init\<close>, \<open>previous_loss\<close>) are modelled as IEEE-754 values without
  rounding: a real number, the negative zero, one of the two infinities, or NaN.
  \<open>Fin 0\<close> is the positive zero \<open>+0.0\<close> and \<open>NZero\<close> the negative zero
  \<open>-0.0\<close>; the two compare equal and differ as divisors: \<open>1 / +0.0\<close> is
  \<open>+inf\<close>, \<open>1 / -0.0\<close> is \<open>-inf\<close>. The numbers the caller passes as
  Python scalars (\<open>beta\<close>, \<open>tol\<close>, \<open>alpha\<close>, \<open>l1_ratio\<close>, and the derived
  \<open>gamma\<close>, \<open>l1_reg\<close>, \<open>l2_reg\<close>) are finite and modelled as \<open>real\<close>.
\<close>

datatype fl = Fin real | NZero | PInf | NInf | NaN

text \<open>
  The sign bit, the real number a finite value stands for, and the zero and the
  infinity with a given sign bit.
\<close>

fun fl_signbit :: "fl \<Rightarrow> bool" where
  "fl_signbit (Fin a) = (a < 0)"
| "fl_signbit NZero = True"
| "fl_signbit PInf = False"
| "fl_signbit NInf = True"
| "fl_signbit NaN = False"

fun fl_val :: "fl \<Rightarrow> real" where
  "fl_val (Fin a) = a"
| "fl_val x = 0"

definition fl_is_zero :: "fl \<Rightarrow> bool" where
  "fl_is_zero x = (x = Fin 0 \<or> x = NZero)"

definition fl_is_inf :: "fl \<Rightarrow> bool" where
  "fl_is_inf x = (x = PInf \<or> x = NInf)"

definition fl_zero :: "bool \<Rightarrow> fl" where
  "fl_zero s = (if s then NZero else Fin 0)"

definition fl_inf :: "bool \<Rightarrow> fl" where
  "fl_inf s = (if s then NInf else PInf)"

fun fl_neg :: "fl \<Rightarrow> fl" where
  "fl_neg (Fin a) = (if a = 0 then NZero else Fin (- a))"
| "fl_neg NZero = Fin 0"
| "fl_neg PInf = NInf"
| "fl_neg NInf = PInf"
| "fl_neg NaN = NaN"

text \<open>
  Addition: a sum of two finite values that is zero is \<open>+0.0\<close>, unless both are
  \<open>-0.0\<close>.
\<close>

fun fl_add :: "fl \<Rightarrow> fl \<Rightarrow> fl" where
  "fl_add NaN y = NaN"
| "fl_add x NaN = NaN"
| "fl_add (Fin a) (Fin b) = Fin (a + b)"
| "fl_add PInf NInf = NaN"
| "fl_add NInf PInf = NaN"
| "fl_add PInf y = PInf"
| "fl_add NInf y = NInf"
| "fl_add x PInf = PInf"
| "fl_add x NInf = NInf"
| "fl_add NZero y = y"
| "fl_add x NZero = x"

definition fl_sub :: "fl \<Rightarrow> fl \<Rightarrow> fl" where
  "fl_sub x y = fl_add x (fl_neg y)"

text \<open>
  Product and quotient: the sign bit of the result is the exclusive or of the sign
  bits; \<open>0 * inf\<close>, \<open>0 / 0\<close> and \<open>inf / inf\<close> are NaN; a non-zero value
  divided by a zero is the infinity of that sign.
\<close>

definition fl_mul :: "fl \<Rightarrow> fl \<Rightarrow> fl" where
  "fl_mul x y =
     (if x = NaN \<or> y = NaN then NaN
      else if (fl_is_zero x \<and> fl_is_inf y) \<or> (fl_is_inf x \<and> fl_is_zero y) then NaN
      else if fl_is_inf x \<or> fl_is_inf y then fl_inf (fl_signbit x \<noteq> fl_signbit y)
      else if fl_is_zero x \<or> fl_is_zero y then fl_zero (fl_signbit x \<noteq> fl_signbit y)
      else Fin (fl_val x * fl_val y))"

definition fl_div :: "fl \<Rightarrow> fl \<Rightarrow> fl" where
  "fl_div x y =
     (if x = NaN \<or> y = NaN then NaN
      else if (fl_is_zero x \<and> fl_is_zero y) \<or> (fl_is_inf x \<and> fl_is_inf y) then NaN
      else if fl_is_inf x \<or> fl_is_zero y then fl_inf (fl_signbit x \<noteq> fl_signbit y)
      else if fl_is_zero x \<or> fl_is_inf y then fl_zero (fl_signbit x \<noteq> fl_signbit y)
      else Fin (fl_val x / fl_val y))"

text \<open>
  Comparisons: every comparison with NaN is false, and the two zeros compare
  equal.
\<close>

fun fl_less :: "fl \<Rightarrow> fl \<Rightarrow> bool" where
  "fl_less NaN y = False"
| "fl_less x NaN = False"
| "fl_less x PInf = (x \<noteq> PInf)"
| "fl_less NInf y = (y \<noteq> NInf)"
| "fl_less PInf y = False"
| "fl_less x NInf = False"
| "fl_less x y = (fl_val x < fl_val y)"

definition fl_le :: "fl \<Rightarrow> fl \<Rightarrow> bool" where
  "fl_le x y = (x \<noteq> NaN \<and> y \<noteq> NaN \<and> \<not> fl_less y x)"

text \<open>
  \<open>F.relu\<close> is \<open>clamp_min(x, 0)\<close>, which keeps \<open>x\<close> unless \<open>x < 0\<close>: NaN
  stays NaN and \<open>-0.0\<close> stays \<open>-0.0\<close>.
\<close>

fun fl_relu :: "fl \<Rightarrow> fl" where
  "fl_relu (Fin a) = Fin (max 0 a)"
| "fl_relu NZero = NZero"
| "fl_relu PInf = PInf"
| "fl_relu NInf = Fin 0"
| "fl_relu NaN = NaN"

text \<open>
  \<open>pow\<close> with a finite exponent, as C's \<open>pow\<close> defines it: anything to the power
  \<open>0\<close> is \<open>1\<close>, a negative base has a real power only for an integer exponent,
  and a negative zero or infinity keeps its sign for an odd integer exponent.
\<close>

definition is_int :: "real \<Rightarrow> bool" where
  "is_int y = (y = of_int \<lfloor>y\<rfloor>)"

definition odd_int :: "real \<Rightarrow> bool" where
  "odd_int y = (is_int y \<and> odd \<lfloor>y\<rfloor>)"

fun fl_pow :: "fl \<Rightarrow> real \<Rightarrow> fl" where
  "fl_pow (Fin a) y =
     (if y = 0 then Fin 1
      else if 0 < a then Fin (a powr y)
      else if a = 0 then (if 0 < y then Fin 0 else PInf)
      else if is_int y then Fin ((if odd_int y then - 1 else 1) * ((- a) powr y))
      else NaN)"
| "fl_pow NZero y =
     (if y = 0 then Fin 1
      else if 0 < y then (if odd_int y then NZero else Fin 0)
      else (if odd_int y then NInf else PInf))"
| "fl_pow PInf y = (if y = 0 then Fin 1 else if 0 < y then PInf else Fin 0)"
| "fl_pow NInf y =
     (if y = 0 then Fin 1
      else if 0 < y then (if odd_int y then NInf else PInf)
      else (if odd_int y then NZero else Fin 0))"
| "fl_pow NaN y = (if y = 0 then Fin 1 else NaN)"

text \<open>
  \<open>nn.Threshold(0.0, 1e-8)\<close>, the model's \<open>fix_neg\<close>: an entry that is \<open>\<le> 0\<close>
  is replaced by \<open>1e-8\<close>; torch's kernel tests \<open>x <= threshold\<close>, so NaN passes.
\<close>

definition fix_neg_scalar :: "fl \<Rightarrow> fl" where
  "fix_neg_scalar x = (if fl_le x (Fin 0) then Fin (1 / 10 ^ 8) else x)"

section \<open>The step exponent of \<open>fit\<close>\<close>

text \<open>
  Lines 122 to 127 of \<open>models.py\<close>:
  \<^verbatim>\<open>
    if beta < 1:   gamma = 1 / (2 - beta)
    elif beta > 2: gamma = 1 / (beta - 1)
    else:          gamma = 1
  \<close>
\<close>

definition fit_gamma :: "real \<Rightarrow> real" where
  "fit_gamma beta =
     (if beta < 1 then 1 / (2 - beta)
      else if beta > 2 then 1 / (beta - 1)
      else 1)"

section \<open>Errors and tensors\<close>

text \<open>
  Every exception the code can raise is a value: \<open>Inl e\<close>. \<open>RuntimeError\<close> is
  what torch raises for a shape mismatch, \<open>TypeError\<close> what \<open>torch.cat\<close> raises
  for a \<open>None\<close> in its list. A result \<open>Inl e\<close> says which exception ends the
  call; the state in which the exception leaves the tensors is not part of it.
\<close>

datatype py_error =
  UnboundLocalError | ZeroDivisionError | RuntimeError | TypeError | IndexError
  | AttributeError

definition bindE :: "py_error + 'a \<Rightarrow> ('a \<Rightarrow> py_error + 'b) \<Rightarrow> py_error + 'b" where
  "bindE m f = (case m of Inl e \<Rightarrow> Inl e | Inr x \<Rightarrow> f x)"

fun mapE :: "('a \<Rightarrow> py_error + 'b) \<Rightarrow> 'a list \<Rightarrow> py_error + 'b list" where
  "mapE f [] = Inr []"
| "mapE f (x # xs) = bindE (f x) (\<lambda>y. bindE (mapE f xs) (\<lambda>ys. Inr (y # ys)))"

text \<open>
  A two-dimensional tensor is the list of its rows, a one-dimensional tensor a list.
  A tensor is rectangular: all rows have the length of the first.
\<close>

type_synonym tensor = "fl list list"

definition nrows :: "tensor \<Rightarrow> nat" where
  "nrows t = length t"

definition ncols :: "tensor \<Rightarrow> nat" where
  "ncols t = (case t of [] \<Rightarrow> 0 | r # _ \<Rightarrow> length r)"

definition shape :: "tensor \<Rightarrow> nat \<times> nat" where
  "shape t = (nrows t, ncols t)"

definition rect :: "tensor \<Rightarrow> bool" where
  "rect t = list_all (\<lambda>r. length r = ncols t) t"

text \<open>
  Broadcasting: two sizes are compatible when they are equal or one of them is 1,
  and an axis of size 1 is repeated.
\<close>

definition bdim :: "nat \<Rightarrow> nat \<Rightarrow> nat option" where
  "bdim a b = (if a = b then Some a else if a = 1 then Some b
               else if b = 1 then Some a else None)"

definition expand_to :: "nat \<Rightarrow> 'a list \<Rightarrow> 'a list" where
  "expand_to n xs = (case xs of [x] \<Rightarrow> replicate n x | _ \<Rightarrow> xs)"

definition expand :: "nat \<Rightarrow> nat \<Rightarrow> tensor \<Rightarrow> tensor" where
  "expand r c t = map (expand_to c) (expand_to r t)"

definition bc2 :: "(fl \<Rightarrow> fl \<Rightarrow> fl) \<Rightarrow> tensor \<Rightarrow> tensor \<Rightarrow> py_error + tensor" where
  "bc2 f a b =
     (case (bdim (nrows a) (nrows b), bdim (ncols a) (ncols b)) of
        (Some r, Some c) \<Rightarrow> Inr (map2 (map2 f) (expand r c a) (expand r c b))
      | _ \<Rightarrow> Inl RuntimeError)"

text \<open>An in-place operation \<open>a.op_(b)\<close>: the broadcast shape must be the shape of \<open>a\<close>.\<close>

definition bc2_inplace :: "(fl \<Rightarrow> fl \<Rightarrow> fl) \<Rightarrow> tensor \<Rightarrow> tensor \<Rightarrow> py_error + tensor" where
  "bc2_inplace f a b =
     (case (bdim (nrows a) (nrows b), bdim (ncols a) (ncols b)) of
        (Some r, Some c) \<Rightarrow>
          if r = nrows a \<and> c = ncols a
          then Inr (map2 (map2 f) a (expand r c b))
          else Inl RuntimeError
      | _ \<Rightarrow> Inl RuntimeError)"

text \<open>\<open>torch.cat\<close> of blocks of shape \<open>(1, n)\<close> along the first axis.\<close>

definition cat :: "fl list list \<Rightarrow> py_error + tensor" where
  "cat bs = (case bs of [] \<Rightarrow> Inl RuntimeError
             | b # _ \<Rightarrow> if list_all (\<lambda>x. length x = length b) bs then Inr bs
                        else Inl RuntimeError)"

definition fl_sum :: "fl list \<Rightarrow> fl" where
  "fl_sum xs = foldr fl_add xs (Fin 0)"

definition dot :: "fl list \<Rightarrow> fl list \<Rightarrow> fl" where
  "dot xs ys = fl_sum (map2 fl_mul xs ys)"

definition matmul :: "tensor \<Rightarrow> tensor \<Rightarrow> py_error + tensor" where
  "matmul a b = (if ncols a = nrows b
                 then Inr (map (\<lambda>r. map (dot r) (transpose b)) a)
                 else Inl RuntimeError)"

definition tpow :: "tensor \<Rightarrow> real \<Rightarrow> tensor" where
  "tpow t y = map (map (\<lambda>x. fl_pow x y)) t"

definition fix_neg :: "tensor \<Rightarrow> tensor" where
  "fix_neg t = map (map fix_neg_scalar) t"

section \<open>The multiplicative update \<open>_mu_update\<close>\<close>

text \<open>
  An \<open>nn.Parameter\<close> block of shape \<open>(1, n)\<close>: its values, its \<open>.grad\<close>
  (\<open>None\<close> until a backward pass fills it) and its \<open>requires_grad\<close> flag.
\<close>

record param =
  data :: "fl list"
  grad :: "fl list option"
  requires_grad :: bool

text \<open>
  The first argument of \<open>_mu_update\<close> is an \<open>nn.ParameterList\<close> of blocks or a
  single tensor with its \<open>.grad\<close>.
\<close>

datatype mu_param = PList "param list" | PSingle tensor "tensor option"

text \<open>Lines 8 to 13: the gradient, or \<open>None\<close> for the early \<open>return\<close>.\<close>

definition block_grad :: "param \<Rightarrow> py_error + fl list" where
  "block_grad x =
     (if requires_grad x
      then (case grad x of None \<Rightarrow> Inl TypeError | Some g \<Rightarrow> Inr g)
      else Inr (replicate (length (data x)) (Fin 0)))"

definition mu_grad :: "mu_param \<Rightarrow> py_error + tensor option" where
  "mu_grad p =
     (case p of
        PList ps \<Rightarrow> bindE (mapE block_grad ps) (\<lambda>gs. bindE (cat gs) (\<lambda>g. Inr (Some g)))
      | PSingle d g \<Rightarrow> Inr g)"

text \<open>Lines 19 to 22: \<open>reg_param\<close>.\<close>

definition mu_reg_param :: "mu_param \<Rightarrow> py_error + tensor" where
  "mu_reg_param p = (case p of PList ps \<Rightarrow> cat (map data ps) | PSingle d g \<Rightarrow> Inr d)"

text \<open>
  Lines 18 to 26. The result is the denominator that line 28 divides by, and the
  caller's \<open>pos\<close> tensor as the in-place additions have left it: \<open>pos = pos + ...\<close>
  binds a new tensor, \<open>pos.add_(...)\<close> changes the caller's.
\<close>

definition mu_l2 :: "mu_param \<Rightarrow> tensor \<Rightarrow> real \<Rightarrow> py_error + tensor \<times> tensor" where
  "mu_l2 p pos l2_reg =
     (if l2_reg > 0 then
        bindE (mu_reg_param p) (\<lambda>reg_param.
          let scaled = map (map (fl_mul (Fin l2_reg))) reg_param in
          if shape pos \<noteq> shape reg_param
          then bindE (bc2 fl_add pos scaled) (\<lambda>pos'. Inr (pos', pos))
          else bindE (bc2_inplace fl_add pos scaled) (\<lambda>pos'. Inr (pos', pos')))
      else Inr (pos, pos))"

text \<open>Lines 31 to 35: every block is multiplied by its row of the multiplier.\<close>

definition mul_row :: "tensor \<Rightarrow> nat \<times> param \<Rightarrow> py_error + param" where
  "mul_row multiplier ix =
     (case ix of (i, x) \<Rightarrow>
        if i < nrows multiplier then
          (let row = multiplier ! i in
           if length row = length (data x) \<or> length row = 1
           then Inr (x\<lparr>data := map2 fl_mul (data x) (expand_to (length (data x)) row)\<rparr>)
           else Inl RuntimeError)
        else Inl IndexError)"

definition mu_apply :: "mu_param \<Rightarrow> tensor \<Rightarrow> py_error + mu_param" where
  "mu_apply p multiplier =
     (case p of
        PList ps \<Rightarrow> bindE (mapE (mul_row multiplier) (enumerate 0 ps)) (\<lambda>ps'. Inr (PList ps'))
      | PSingle d g \<Rightarrow> bindE (bc2_inplace fl_mul d multiplier) (\<lambda>d'. Inr (PSingle d' g)))"

text \<open>
  \<open>_mu_update(param, pos, gamma, l1_reg, l2_reg)\<close>. The function returns nothing and
  works by mutation; the model returns the updated parameter and the caller's \<open>pos\<close>
  tensor after the call.
\<close>

definition mu_update ::
  "mu_param \<Rightarrow> tensor \<Rightarrow> real \<Rightarrow> real \<Rightarrow> real \<Rightarrow> py_error + mu_param \<times> tensor" where
  "mu_update p pos gamma l1_reg l2_reg =
     bindE (mu_grad p) (\<lambda>g.
       case g of
         None \<Rightarrow> Inr (p, pos)
       | Some gr \<Rightarrow>
           bindE (bc2 fl_sub pos gr) (\<lambda>d.
             let multiplier = map (map fl_relu) d;
                 pos1 = (if l1_reg > 0 then map (map (\<lambda>x. fl_add x (Fin l1_reg))) pos else pos)
             in bindE (mu_l2 p pos1 l2_reg) (\<lambda>(pos2, pos_obj).
                  bindE (bc2_inplace fl_div multiplier pos2) (\<lambda>ratio.
                    let multiplier' = (if gamma \<noteq> 1 then tpow ratio gamma else ratio)
                    in bindE (mu_apply p multiplier') (\<lambda>p'. Inr (p', pos_obj))))))"

section \<open>The model: \<open>NMFBase\<close> and \<open>NMF\<close>\<close>

record nmf =
  W_list :: "param list"
  H_list :: "param list"
  rank :: nat
  m_examples :: nat
  n_features :: nat

text \<open>
  \<open>NMFBase.__init__\<close>, lines 65 to 80, for one factor: the blocks are the supplied
  initial values, or \<open>shape[0]\<close> blocks \<open>torch.rand(1, *shape[1:])\<close>; then the
  flags of \<open>fix\<close> are written, index by index. The draws of \<open>torch.rand\<close> are the
  parameter \<open>rnd\<close>: entry \<open>j\<close> of block \<open>i\<close>.
\<close>

definition make_blocks ::
  "(nat \<Rightarrow> nat \<Rightarrow> real) \<Rightarrow> nat \<times> nat \<Rightarrow> fl list list option \<Rightarrow> bool list
   \<Rightarrow> py_error + param list" where
  "make_blocks rnd shp initial fix =
     (let l = (case initial of
                 Some ws \<Rightarrow> map (\<lambda>w. \<lparr>data = w, grad = None, requires_grad = True\<rparr>) ws
               | None \<Rightarrow>
                   map (\<lambda>i. \<lparr>data = map (\<lambda>j. Fin (rnd i j)) [0..<snd shp], grad = None,
                             requires_grad = True\<rparr>) [0..<fst shp])
      in if fix \<noteq> [] then
           (if length fix \<le> length l
            then Inr (map (\<lambda>(i, x). if i < length fix then x\<lparr>requires_grad := \<not> fix ! i\<rparr> else x)
                        (enumerate 0 l))
            else Inl IndexError)
         else Inr l)"

definition NMFBase_init ::
  "(nat \<Rightarrow> nat \<Rightarrow> real) \<Rightarrow> (nat \<Rightarrow> nat \<Rightarrow> real) \<Rightarrow> nat \<times> nat \<Rightarrow> nat \<times> nat \<Rightarrow> nat
   \<Rightarrow> fl list list option \<Rightarrow> bool list \<Rightarrow> fl list list option \<Rightarrow> bool list
   \<Rightarrow> py_error + param list \<times> param list \<times> nat" where
  "NMFBase_init rndW rndH W_shape H_shape n_components
       initial_components fix_components initial_weights fix_weights =
     bindE (make_blocks rndW W_shape initial_weights fix_weights) (\<lambda>w_list.
     bindE (make_blocks rndH H_shape initial_components fix_components) (\<lambda>h_list.
       Inr (w_list, h_list, n_components)))"

text \<open>\<open>NMF.__init__(X_shape, n_components, **kwargs)\<close>, lines 171 to 178.\<close>

definition NMF_init ::
  "(nat \<Rightarrow> nat \<Rightarrow> real) \<Rightarrow> (nat \<Rightarrow> nat \<Rightarrow> real) \<Rightarrow> nat \<times> nat \<Rightarrow> nat
   \<Rightarrow> fl list list option \<Rightarrow> bool list \<Rightarrow> fl list list option \<Rightarrow> bool list
   \<Rightarrow> py_error + nmf" where
  "NMF_init rndW rndH X_shape n_components
       initial_components fix_components initial_weights fix_weights =
     (case X_shape of (m, n) \<Rightarrow>
        bindE (NMFBase_init rndW rndH (m, n_components) (n_components, n) n_components
                 initial_components fix_components initial_weights fix_weights)
          (\<lambda>(w_list, h_list, k).
             Inr \<lparr>W_list = w_list, H_list = h_list, rank = k, m_examples = m,
                  n_features = n\<rparr>))"

text \<open>The properties \<open>H\<close> and \<open>W\<close> (lines 82 to 88) and \<open>NMF.reconstruct\<close>.\<close>

definition nmf_H :: "nmf \<Rightarrow> py_error + tensor" where
  "nmf_H self = cat (map data (H_list self))"

definition nmf_W :: "nmf \<Rightarrow> py_error + tensor" where
  "nmf_W self = cat (map data (W_list self))"

definition reconstruct :: "tensor \<Rightarrow> tensor \<Rightarrow> py_error + tensor" where
  "reconstruct H W = matmul W H"

text \<open>
  \<open>NMF.get_W_positive\<close> (lines 183 to 194) and \<open>NMF.get_H_positive\<close> (lines 196 to
  207). \<open>H.sum(dim=1)\<close> is the list of the row sums, \<open>W.sum(dim=0)\<close> the list of
  the column sums; \<open>H_sum[None, :]\<close> is the one-row tensor, \<open>W_sum[:, None]\<close> the
  one-column tensor.
\<close>

definition get_W_positive ::
  "nmf \<Rightarrow> tensor \<Rightarrow> real \<Rightarrow> fl list option \<Rightarrow> py_error + tensor \<times> fl list option" where
  "get_W_positive self WH beta H_sum =
     bindE (nmf_H self) (\<lambda>H.
       if beta = 1 then
         (let H_sum' = (case H_sum of None \<Rightarrow> map fl_sum H | Some s \<Rightarrow> s)
          in Inr ([H_sum'], Some H_sum'))
       else
         (let WH' = (if beta \<noteq> 2 then tpow WH (beta - 1) else WH)
          in bindE (matmul WH' (transpose H)) (\<lambda>WHHt. Inr (WHHt, H_sum))))"

definition get_H_positive ::
  "nmf \<Rightarrow> tensor \<Rightarrow> real \<Rightarrow> fl list option \<Rightarrow> py_error + tensor \<times> fl list option" where
  "get_H_positive self WH beta W_sum =
     bindE (nmf_W self) (\<lambda>W.
       if beta = 1 then
         (let W_sum' = (case W_sum of None \<Rightarrow> map fl_sum (transpose W) | Some s \<Rightarrow> s)
          in Inr (map (\<lambda>x. [x]) W_sum', Some W_sum'))
       else
         (let WH' = (if beta \<noteq> 2 then tpow WH (beta - 1) else WH)
          in bindE (matmul (transpose W) WH') (\<lambda>WtWH. Inr (WtWH, W_sum))))"

section \<open>The loop of \<open>fit\<close>\<close>

text \<open>
  \<open>beta_divergence\<close> is imported from the module \<open>metrics\<close>, which is not among the
  sources, and \<open>loss.backward()\<close> differentiates it. Both are the parameter
  \<open>bdiv\<close>: given the clamped reconstruction, the target and \<open>beta\<close> it returns
  the loss and the derivative of the loss with respect to its first argument, or
  raises. The rest of the backward pass is written out: through the threshold
  (no gradient where the entry was replaced), through the matrix product, and
  through \<open>torch.cat\<close> into the blocks that require a gradient.
\<close>

type_synonym divergence = "tensor \<Rightarrow> tensor \<Rightarrow> real \<Rightarrow> py_error + fl \<times> tensor"

definition threshold_backward :: "tensor \<Rightarrow> tensor \<Rightarrow> py_error + tensor" where
  "threshold_backward dY WH =
     (if map length dY = map length WH
      then Inr (map2 (map2 (\<lambda>g x. if fl_le x (Fin 0) then Fin 0 else g)) dY WH)
      else Inl RuntimeError)"

text \<open>
  \<open>self.zero_grad()\<close> resets the \<open>.grad\<close> of every block to \<open>None\<close>, the default
  of torch since version 2.0 (before, it filled them with zeros; each step makes its
  own backward pass, so the update is the same). \<open>set_grads\<close> is the end of the
  backward pass: row \<open>i\<close> of the gradient of the concatenated factor becomes the
  \<open>.grad\<close> of block \<open>i\<close>, if the block requires one.
\<close>

definition zero_grad :: "nmf \<Rightarrow> nmf" where
  "zero_grad self =
     self\<lparr>W_list := map (\<lambda>x. x\<lparr>grad := None\<rparr>) (W_list self),
          H_list := map (\<lambda>x. x\<lparr>grad := None\<rparr>) (H_list self)\<rparr>"

definition set_grads :: "tensor \<Rightarrow> param list \<Rightarrow> param list" where
  "set_grads g ps =
     map (\<lambda>(x, r). if requires_grad x then x\<lparr>grad := Some r\<rparr> else x) (zip ps g)"

definition blocks_of :: "mu_param \<Rightarrow> param list \<Rightarrow> param list" where
  "blocks_of p old = (case p of PList ps \<Rightarrow> ps | PSingle d g \<Rightarrow> old)"

text \<open>
  The Python variable \<open>loss\<close>: unbound, the tensor a step has computed, or the
  float that line 153 has made of it.
\<close>

datatype py_loss = Unbound | LossTensor fl | LossFloat fl

text \<open>The arguments of one invocation of \<open>_mu_update\<close>.\<close>

record mu_call =
  call_param :: mu_param
  call_pos :: tensor
  call_gamma :: real
  call_l1_reg :: real
  call_l2_reg :: real

text \<open>
  The state of a call of \<open>fit\<close>: the model, the local variables \<open>H_sum\<close>,
  \<open>W_sum\<close>, \<open>loss\<close>, \<open>loss_init\<close> and \<open>previous_loss\<close>, and two records
  of what the call has done so far: the lines printed (line 154) and the arguments of
  every invocation of \<open>_mu_update\<close> (lines 140 and 150), in order.
\<close>

record fit_state =
  model :: nmf
  H_sum :: "fl list option"
  W_sum :: "fl list option"
  loss :: py_loss
  loss_init :: "fl option"
  previous_loss :: "fl option"
  printed :: "(nat \<times> fl) list"
  calls :: "mu_call list"

text \<open>
  Lines 134 to 141. For \<open>beta = 1\<close> the denominator is a view of the cached sum,
  so what \<open>_mu_update\<close> adds to \<open>pos\<close> in place is added to the cache.
\<close>

definition W_step ::
  "divergence \<Rightarrow> tensor \<Rightarrow> real \<Rightarrow> real \<Rightarrow> real \<Rightarrow> real \<Rightarrow> fit_state \<Rightarrow> py_error + fit_state" where
  "W_step bdiv X beta gamma l1_reg l2_reg st =
     (let self = zero_grad (model st) in
      bindE (nmf_H self) (\<lambda>H.
      bindE (nmf_W self) (\<lambda>W.
      bindE (reconstruct H W) (\<lambda>WH.
      bindE (bdiv (fix_neg WH) X beta) (\<lambda>(l, dY).
      bindE (threshold_backward dY WH) (\<lambda>G.
      bindE (matmul G (transpose H)) (\<lambda>gW.
        let self1 = self\<lparr>W_list := set_grads gW (W_list self)\<rparr> in
        bindE (get_W_positive self1 WH beta (H_sum st)) (\<lambda>(positive_comps, H_sum').
        bindE (mu_update (PList (W_list self1)) positive_comps gamma l1_reg l2_reg)
          (\<lambda>(p, pos_obj).
             Inr (st\<lparr>model := self1\<lparr>W_list := blocks_of p (W_list self1)\<rparr>,
                     loss := LossTensor l,
                     H_sum := (if beta = 1 then Some (concat pos_obj) else H_sum'),
                     W_sum := None,
                     calls := calls st @
                       [\<lparr>call_param = PList (W_list self1), call_pos = positive_comps,
                         call_gamma = gamma, call_l1_reg = l1_reg,
                         call_l2_reg = l2_reg\<rparr>]\<rparr>))))))))))"

text \<open>Lines 144 to 151.\<close>

definition H_step ::
  "divergence \<Rightarrow> tensor \<Rightarrow> real \<Rightarrow> real \<Rightarrow> real \<Rightarrow> real \<Rightarrow> fit_state \<Rightarrow> py_error + fit_state" where
  "H_step bdiv X beta gamma l1_reg l2_reg st =
     (let self = zero_grad (model st) in
      bindE (nmf_H self) (\<lambda>H.
      bindE (nmf_W self) (\<lambda>W.
      bindE (reconstruct H W) (\<lambda>WH.
      bindE (bdiv (fix_neg WH) X beta) (\<lambda>(l, dY).
      bindE (threshold_backward dY WH) (\<lambda>G.
      bindE (matmul (transpose W) G) (\<lambda>gH.
        let self1 = self\<lparr>H_list := set_grads gH (H_list self)\<rparr> in
        bindE (get_H_positive self1 WH beta (W_sum st)) (\<lambda>(positive_comps, W_sum').
        bindE (mu_update (PList (H_list self1)) positive_comps gamma l1_reg l2_reg)
          (\<lambda>(p, pos_obj).
             Inr (st\<lparr>model := self1\<lparr>H_list := blocks_of p (H_list self1)\<rparr>,
                     loss := LossTensor l,
                     W_sum := (if beta = 1 then Some (concat pos_obj) else W_sum'),
                     H_sum := None,
                     calls := calls st @
                       [\<lparr>call_param = PList (H_list self1), call_pos = positive_comps,
                         call_gamma = gamma, call_l1_reg = l1_reg,
                         call_l2_reg = l2_reg\<rparr>]\<rparr>))))))))))"

text \<open>
  Line 130, \<open>loss_scale\<close>: the number of entries of \<open>X\<close>. Line 158, the test
  \<open>(previous_loss - loss) / loss_init < tol\<close> on Python floats: dividing by
  a zero of either sign raises.
\<close>

definition loss_scale :: "tensor \<Rightarrow> fl" where
  "loss_scale X = Fin (of_nat (nrows X * ncols X))"

definition converged :: "fl option \<Rightarrow> fl \<Rightarrow> fl option \<Rightarrow> real \<Rightarrow> py_error + bool" where
  "converged prev l init tol =
     (case (prev, init) of
        (Some p, Some i) \<Rightarrow>
          if fl_is_zero i then Inl ZeroDivisionError
          else Inr (fl_less (fl_div (fl_sub p l) i) (Fin tol))
      | _ \<Rightarrow> Inl UnboundLocalError)"

text \<open>
  One pass through the body of the loop, lines 133 to 160, at index \<open>n_iter\<close>.
  The result says whether the pass ended in \<open>break\<close>.
\<close>

definition fit_body ::
  "divergence \<Rightarrow> tensor \<Rightarrow> bool \<Rightarrow> bool \<Rightarrow> real \<Rightarrow> real \<Rightarrow> real \<Rightarrow> real \<Rightarrow> real
   \<Rightarrow> nat \<Rightarrow> fit_state \<Rightarrow> py_error + bool \<times> fit_state" where
  "fit_body bdiv X update_W update_H beta tol gamma l1_reg l2_reg n_iter st =
     bindE (if update_W \<and> list_ex requires_grad (W_list (model st))
            then W_step bdiv X beta gamma l1_reg l2_reg st else Inr st) (\<lambda>st1.
     bindE (if update_H \<and> list_ex requires_grad (H_list (model st1))
            then H_step bdiv X beta gamma l1_reg l2_reg st1 else Inr st1) (\<lambda>st2.
     bindE (case loss st2 of
              Unbound \<Rightarrow> Inl UnboundLocalError
            | LossFloat v \<Rightarrow> Inl AttributeError
            | LossTensor v \<Rightarrow> Inr (fl_div v (loss_scale X))) (\<lambda>l.
       let st3 = st2\<lparr>loss := LossFloat l, printed := printed st2 @ [(n_iter, l)]\<rparr> in
       if n_iter = 0 then Inr (False, st3\<lparr>loss_init := Some l, previous_loss := Some l\<rparr>)
       else bindE (converged (previous_loss st3) l (loss_init st3) tol) (\<lambda>brk.
              if brk then Inr (True, st3)
              else Inr (False, st3\<lparr>previous_loss := Some l\<rparr>)))))"

text \<open>
  \<open>for n_iter in range(max_iter)\<close>: the body runs over the indices in turn; the
  third argument is the variable \<open>n_iter\<close>, \<open>None\<close> while it is unbound.
\<close>

fun fit_loop ::
  "(nat \<Rightarrow> fit_state \<Rightarrow> py_error + bool \<times> fit_state) \<Rightarrow> nat list \<Rightarrow> nat option \<Rightarrow> fit_state
   \<Rightarrow> py_error + nat option \<times> fit_state" where
  "fit_loop body [] n_iter st = Inr (n_iter, st)"
| "fit_loop body (n # ns) n_iter st =
     bindE (body n st) (\<lambda>(brk, st').
       if brk then Inr (Some n, st') else fit_loop body ns (Some n) st')"

text \<open>
  \<open>NMFBase.fit\<close>, lines 111 to 162. \<open>fit_run\<close> is lines 120 to 160: the variable
  \<open>n_iter\<close> and the state when the loop is left. \<open>fit\<close> adds line 162, the
  \<open>return n_iter\<close>: its result is the returned \<open>n_iter\<close>, the model as the call
  leaves it and the lines printed, one per pass: the index and the normalised loss.
  The cast \<open>X.type(torch.float)\<close> of line 120 changes no value here, since the
  scalars are not rounded.
\<close>

definition fit_run ::
  "divergence \<Rightarrow> nmf \<Rightarrow> tensor \<Rightarrow> bool \<Rightarrow> bool \<Rightarrow> real \<Rightarrow> real \<Rightarrow> int \<Rightarrow> real \<Rightarrow> real
   \<Rightarrow> py_error + nat option \<times> fit_state" where
  "fit_run bdiv self X update_W update_H beta tol max_iter alpha l1_ratio =
     (let X' = fix_neg X;
          gamma = fit_gamma beta;
          l1_reg = alpha * l1_ratio;
          l2_reg = alpha * (1 - l1_ratio);
          st0 = \<lparr>model = self, H_sum = None, W_sum = None, loss = Unbound,
                 loss_init = None, previous_loss = None, printed = [], calls = []\<rparr>
      in fit_loop (fit_body bdiv X' update_W update_H beta tol gamma l1_reg l2_reg)
           [0..<nat max_iter] None st0)"

definition fit ::
  "divergence \<Rightarrow> nmf \<Rightarrow> tensor \<Rightarrow> bool \<Rightarrow> bool \<Rightarrow> real \<Rightarrow> real \<Rightarrow> int \<Rightarrow> real \<Rightarrow> real
   \<Rightarrow> py_error + nat \<times> nmf \<times> (nat \<times> fl) list" where
  "fit bdiv self X update_W update_H beta tol max_iter alpha l1_ratio =
     bindE (fit_run bdiv self X update_W update_H beta tol max_iter alpha l1_ratio)
       (\<lambda>(n_iter, st).
          case n_iter of
            None \<Rightarrow> Inl UnboundLocalError
          | Some n \<Rightarrow> Inr (n, model st, printed st))"

text \<open>
  The invocations of \<open>_mu_update\<close> that a call of \<open>fit\<close> has made when the loop is
  left, in order.
\<close>

definition fit_calls ::
  "divergence \<Rightarrow> nmf \<Rightarrow> tensor \<Rightarrow> bool \<Rightarrow> bool \<Rightarrow> real \<Rightarrow> real \<Rightarrow> int \<Rightarrow> real \<Rightarrow> real
   \<Rightarrow> mu_call list" where
  "fit_calls bdiv self X update_W update_H beta tol max_iter alpha l1_ratio =
     (case fit_run bdiv self X update_W update_H beta tol max_iter alpha l1_ratio of
        Inl e \<Rightarrow> []
      | Inr (n_iter, st) \<Rightarrow> calls st)"

text \<open>\<open>NMFBase.fit_transform\<close>, lines 164 to 166.\<close>

definition fit_transform ::
  "divergence \<Rightarrow> nmf \<Rightarrow> tensor \<Rightarrow> bool \<Rightarrow> bool \<Rightarrow> real \<Rightarrow> real \<Rightarrow> int \<Rightarrow> real \<Rightarrow> real
   \<Rightarrow> py_error + (nat \<times> tensor) \<times> nmf \<times> (nat \<times> fl) list" where
  "fit_transform bdiv self X update_W update_H beta tol max_iter alpha l1_ratio =
     bindE (fit bdiv self X update_W update_H beta tol max_iter alpha l1_ratio)
       (\<lambda>(n_iter, self', out).
          bindE (cat (map data (W_list self'))) (\<lambda>W. Inr ((n_iter, W), self', out)))"

text \<open>
  Modelled from the spec: \<open>beta_divergence\<close> at \<open>beta = 2\<close>, which the spec fixes as
  (proportional to) the squared Euclidean distance; here half the sum of the
  squared differences, with the derivative \<open>estimate - target\<close>. It is the
  divergence of the concrete runs below.
\<close>

definition beta_divergence_sq :: divergence where
  "beta_divergence_sq Y X beta =
     (if map length Y = map length X
      then Inr (fl_sum (map (\<lambda>(y, x). fl_mul (Fin (1 / 2)) (fl_mul (fl_sub y x) (fl_sub y x)))
                          (zip (concat Y) (concat X))),
                map2 (map2 fl_sub) Y X)
      else Inl RuntimeError)"

section \<open>Concrete inputs\<close>

text \<open>
  The inputs of the concrete runs: a block with the given entries and no gradient, a
  model of rank 1 for a 2 by 2 target, the same model with its first \<open>W\<close> block
  fixed, with every block fixed, and a 1 by 1 model whose \<open>H\<close> is zero.
\<close>

definition block :: "real list \<Rightarrow> bool \<Rightarrow> param" where
  "block xs t = \<lparr>data = map Fin xs, grad = None, requires_grad = t\<rparr>"

definition ex_model :: nmf where
  "ex_model = \<lparr>W_list = [block [1] True, block [1] True], H_list = [block [1, 1] True],
                rank = 1, m_examples = 2, n_features = 2\<rparr>"

definition ex_first_fixed :: nmf where
  "ex_first_fixed = \<lparr>W_list = [block [1] False, block [1] True], H_list = [block [1, 1] True],
                      rank = 1, m_examples = 2, n_features = 2\<rparr>"

definition ex_all_fixed :: nmf where
  "ex_all_fixed = \<lparr>W_list = [block [1] False, block [1] False], H_list = [block [1, 1] False],
                    rank = 1, m_examples = 2, n_features = 2\<rparr>"


text \<open>A draw of \<open>torch.rand\<close> in which every entry is \<open>1 / 2\<close>.\<close>

definition half_draw :: "nat \<Rightarrow> nat \<Rightarrow> real" where
  "half_draw i j = 1 / 2"

definition ex_X :: tensor where
  "ex_X = [[Fin 1, Fin 2], [Fin 3, Fin 4]]"

definition ex_scalar :: nmf where
  "ex_scalar = \<lparr>W_list = [block [1] True], H_list = [block [1] True],
                 rank = 1, m_examples = 1, n_features = 1\<rparr>"

section \<open>Observations on a run of \<open>fit\<close>\<close>

text \<open>
  What a caller sees of a call: the returned number, and the number of passes made,
  which is the number of lines printed. The test of line 158 at pass \<open>j\<close>, read off
  the printed losses: the loss of the pass before, the loss of this pass, and the
  loss of pass \<open>0\<close>.
\<close>

definition returned_n_iter :: "py_error + nat \<times> nmf \<times> (nat \<times> fl) list \<Rightarrow> nat option" where
  "returned_n_iter r = (case r of Inl e \<Rightarrow> None | Inr (n, self, out) \<Rightarrow> Some n)"

definition passes_made :: "py_error + nat \<times> nmf \<times> (nat \<times> fl) list \<Rightarrow> nat option" where
  "passes_made r = (case r of Inl e \<Rightarrow> None | Inr (n, self, out) \<Rightarrow> Some (length out))"

text \<open>The blocks of \<open>W\<close> can be concatenated: \<open>torch.cat\<close> does not raise.\<close>

definition cat_W_ok :: "nmf \<Rightarrow> bool" where
  "cat_W_ok self = (cat (map data (W_list self)) = Inr (map data (W_list self)))"

definition stop_test :: "real \<Rightarrow> (nat \<times> fl) list \<Rightarrow> nat \<Rightarrow> bool" where
  "stop_test tol out j =
     fl_less (fl_div (fl_sub (snd (out ! (j - 1))) (snd (out ! j))) (snd (out ! 0))) (Fin tol)"

text \<open>
  The invariant of the loop before pass \<open>a\<close>, and what holds after the last pass
  \<open>n\<close>.
\<close>

definition loop_inv :: "real \<Rightarrow> nat \<Rightarrow> fit_state \<Rightarrow> bool" where
  "loop_inv tol a st =
     (map fst (printed st) = [0..<a] \<and>
      (0 < a \<longrightarrow> loss_init st = Some (snd (printed st ! 0)) \<and>
                 previous_loss st = Some (snd (printed st ! (a - 1)))) \<and>
      (\<forall>j. 0 < j \<and> j < a \<longrightarrow> \<not> stop_test tol (printed st) j))"

definition loop_done :: "real \<Rightarrow> nat \<Rightarrow> fit_state \<Rightarrow> bool" where
  "loop_done tol n st =
     (map fst (printed st) = [0..<Suc n] \<and>
      (\<forall>j. 0 < j \<and> j < n \<longrightarrow> \<not> stop_test tol (printed st) j))"

section \<open>Predicates on the entries\<close>

text \<open>
  \<open>nonneg x\<close> is the comparison \<open>x >= 0\<close>, which is false for NaN and true for
  both zeros; \<open>finite_fl x\<close> says that \<open>x\<close> is neither NaN nor an infinity;
  \<open>fin_nonneg x\<close> that \<open>x\<close> is finite and \<open>>= 0\<close>; \<open>fin_pos x\<close> that
  \<open>x\<close> is finite and \<open>> 0\<close>; \<open>fl_is_real x\<close> that \<open>x\<close> is a real number
  other than the negative zero. The other predicates say that every entry of a
  tensor, of the blocks of a factor, of a model or of the first argument of
  \<open>_mu_update\<close> satisfies \<open>P\<close>, and that every entry of the gradient that lines
  8 to 13 of \<open>_mu_update\<close> read does.
\<close>

definition nonneg :: "fl \<Rightarrow> bool" where
  "nonneg x = fl_le (Fin 0) x"

definition finite_fl :: "fl \<Rightarrow> bool" where
  "finite_fl x = (fl_less NInf x \<and> fl_less x PInf)"

definition fin_nonneg :: "fl \<Rightarrow> bool" where
  "fin_nonneg x = (nonneg x \<and> finite_fl x)"

definition fin_pos :: "fl \<Rightarrow> bool" where
  "fin_pos x = (fl_less (Fin 0) x \<and> fl_less x PInf)"

definition fl_is_real :: "fl \<Rightarrow> bool" where
  "fl_is_real x = (case x of Fin a \<Rightarrow> True | _ \<Rightarrow> False)"


definition blocks_all :: "(fl \<Rightarrow> bool) \<Rightarrow> param list \<Rightarrow> bool" where
  "blocks_all P ps = list_all (\<lambda>x. list_all P (data x)) ps"

definition model_all :: "(fl \<Rightarrow> bool) \<Rightarrow> nmf \<Rightarrow> bool" where
  "model_all P self = (blocks_all P (W_list self) \<and> blocks_all P (H_list self))"





section \<open>The update of one entry\<close>

text \<open>
  A tensor of shape \<open>(m, c)\<close> with at least one row, and the entry that
  broadcasting reads at position \<open>(i, j)\<close>: an axis of size 1 is read at index 0.
\<close>

definition is_shape :: "nat \<Rightarrow> nat \<Rightarrow> tensor \<Rightarrow> bool" where
  "is_shape m c t = (0 < m \<and> length t = m \<and> list_all (\<lambda>r. length r = c) t)"

definition bget :: "tensor \<Rightarrow> nat \<Rightarrow> nat \<Rightarrow> fl" where
  "bget t i j =
     (let row = t ! (if nrows t = 1 then 0 else i)
      in row ! (if length row = 1 then 0 else j))"

text \<open>
  What lines 9 and 15 to 35 compute for one entry, with \<open>old\<close> its value, \<open>p\<close>
  the entry of \<open>pos\<close> and \<open>g\<close> the entry of the gradient: the denominator is
  \<open>p\<close>, plus \<open>l1_reg\<close> if \<open>l1_reg > 0\<close> (line 16), plus \<open>l2_reg * old\<close> if
  \<open>l2_reg > 0\<close> (line 18). The gradient that line 9 reads for a block is its
  \<open>.grad\<close>, or zeros for a block that does not require one.
\<close>

definition mu_den :: "real \<Rightarrow> real \<Rightarrow> fl \<Rightarrow> fl \<Rightarrow> fl" where
  "mu_den l1_reg l2_reg old p =
     (let p1 = (if l1_reg > 0 then fl_add p (Fin l1_reg) else p)
      in if l2_reg > 0 then fl_add p1 (fl_mul (Fin l2_reg) old) else p1)"

definition mu_entry :: "real \<Rightarrow> real \<Rightarrow> real \<Rightarrow> fl \<Rightarrow> fl \<Rightarrow> fl \<Rightarrow> fl" where
  "mu_entry gamma l1_reg l2_reg old p g =
     fl_mul old (fl_pow (fl_div (fl_relu (fl_sub p g)) (mu_den l1_reg l2_reg old p)) gamma)"

definition grad_read :: "param \<Rightarrow> fl list" where
  "grad_read x =
     (if requires_grad x then (case grad x of Some g \<Rightarrow> g | None \<Rightarrow> [])
      else replicate (length (data x)) (Fin 0))"

text \<open>
  A block of length \<open>c\<close> whose gradient, if it requires one, is there and has the
  block's shape; and a trainable block of length \<open>c\<close>: it requires a gradient and
  has one of its shape, \<open>grad_of\<close>.
\<close>

definition block_ok :: "nat \<Rightarrow> param \<Rightarrow> bool" where
  "block_ok c x =
     (length (data x) = c \<and>
      (requires_grad x \<longrightarrow> (case grad x of Some g \<Rightarrow> length g = c | None \<Rightarrow> False)))"

definition trainable :: "nat \<Rightarrow> param \<Rightarrow> bool" where
  "trainable c x =
     (requires_grad x \<and> length (data x) = c \<and>
      (case grad x of Some g \<Rightarrow> length g = c | None \<Rightarrow> False))"

definition grad_of :: "param \<Rightarrow> fl list" where
  "grad_of x = (case grad x of Some g \<Rightarrow> g | None \<Rightarrow> [])"

text \<open>
  The formula of the spec for one entry:
  \<open>old * (relu(pos - grad) / (pos + l1_reg + l2_reg * old)) ^ gamma\<close>.
\<close>

definition mu_entry_spec :: "real \<Rightarrow> real \<Rightarrow> real \<Rightarrow> fl \<Rightarrow> fl \<Rightarrow> fl \<Rightarrow> fl" where
  "mu_entry_spec gamma l1_reg l2_reg old p g =
     fl_mul old (fl_pow (fl_div (fl_relu (fl_sub p g))
                           (fl_add (fl_add p (Fin l1_reg)) (fl_mul (Fin l2_reg) old))) gamma)"


definition ex_trainable :: "param list" where
  "ex_trainable =
     [\<lparr>data = [Fin 1, Fin 2], grad = Some [Fin 0, Fin 1], requires_grad = True\<rparr>,
      \<lparr>data = [Fin 3, Fin 4], grad = Some [Fin (- 1), Fin 5], requires_grad = True\<rparr>]"

section \<open>Properties\<close>

subsection \<open>Arithmetic on finite values\<close>

lemma fl_mul_Fin:
  "fl_mul (Fin a) (Fin b) =
     (if a = 0 \<or> b = 0 then fl_zero ((a < 0) \<noteq> (b < 0)) else Fin (a * b))"
  by (simp add: fl_mul_def fl_is_zero_def fl_is_inf_def)

lemma fl_div_Fin:
  "fl_div (Fin a) (Fin b) =
     (if b = 0 then (if a = 0 then NaN else fl_inf (a < 0))
      else if a = 0 then fl_zero (b < 0) else Fin (a / b))"
  by (simp add: fl_div_def fl_is_zero_def fl_is_inf_def)

lemma fl_mul_pos [simp]: "0 < a \<or> 0 < b \<Longrightarrow> fl_mul (Fin a) (Fin b) = Fin (a * b)"
  by (auto simp add: fl_mul_Fin fl_zero_def)

lemma fl_div_pos [simp]: "0 < b \<Longrightarrow> fl_div (Fin a) (Fin b) = Fin (a / b)"
  by (auto simp add: fl_div_Fin fl_zero_def)

text \<open>The definitions that a concrete run unfolds.\<close>

lemmas run_simps =
  fit_def fit_run_def fit_calls_def fit_body_def W_step_def H_step_def Let_def
  zero_grad_def nmf_H_def nmf_W_def cat_def reconstruct_def matmul_def nrows_def ncols_def
  shape_def fix_neg_def fix_neg_scalar_def fl_le_def beta_divergence_sq_def dot_def
  fl_sum_def fl_sub_def threshold_backward_def set_grads_def get_W_positive_def
  get_H_positive_def tpow_def mu_update_def mu_grad_def mu_reg_param_def block_grad_def
  bc2_def bdim_def expand_def expand_to_def mu_l2_def bc2_inplace_def mu_apply_def
  mul_row_def blocks_of_def loss_scale_def fit_gamma_def converged_def
  fl_mul_Fin fl_div_Fin fl_zero_def fl_inf_def powr_half_sqrt power2_eq_square

subsection \<open>Results that are errors\<close>

lemma bindE_Inl [simp]: "bindE (Inl e) f = Inl e"
  by (simp add: bindE_def)

lemma bindE_Inr [simp]: "bindE (Inr x) f = f x"
  by (simp add: bindE_def)

lemma bindE_eq_Inr: "bindE m f = Inr y \<longleftrightarrow> (\<exists>x. m = Inr x \<and> f x = Inr y)"
  by (cases m) simp_all

lemma cat_Inr: "cat bs = Inr t \<Longrightarrow> t = bs"
  by (auto simp add: cat_def split: list.splits if_splits)

subsection \<open>The unbound variables of \<open>fit\<close>\<close>

text \<open>
  A pass in which neither step runs reaches line 153 with \<open>loss\<close> unbound; a loop
  that makes no pass reaches line 162 with \<open>n_iter\<close> unbound.
\<close>

lemma fit_body_unbound:
  assumes "\<not> (update_W \<and> list_ex requires_grad (W_list (model st)))"
    and "\<not> (update_H \<and> list_ex requires_grad (H_list (model st)))"
    and "loss st = Unbound"
  shows "fit_body bdiv X update_W update_H beta tol gamma l1_reg l2_reg n st
         = Inl UnboundLocalError"
  using assms by (auto simp add: fit_body_def)

lemma fit_no_step:
  assumes "\<not> (update_W \<and> list_ex requires_grad (W_list self))"
    and "\<not> (update_H \<and> list_ex requires_grad (H_list self))"
  shows "fit bdiv self X update_W update_H beta tol max_iter alpha l1_ratio
         = Inl UnboundLocalError"
proof (cases "[0..<nat max_iter]")
  case Nil
  then show ?thesis by (simp add: fit_def fit_run_def)
next
  case (Cons n ns)
  then show ?thesis using assms
    by (simp add: fit_def fit_run_def Let_def fit_body_unbound)
qed

lemma fit_no_pass:
  assumes "max_iter \<le> 0"
  shows "fit bdiv self X update_W update_H beta tol max_iter alpha l1_ratio
         = Inl UnboundLocalError"
  using assms by (simp add: fit_def fit_run_def)

lemma ex_model_one_pass:
  "fit beta_divergence_sq ex_model ex_X True True 2 0 1 0 0 =
   Inr (0,
        \<lparr>W_list = [\<lparr>data = [Fin (3 / 2)], grad = None, requires_grad = True\<rparr>,
                   \<lparr>data = [Fin (7 / 2)], grad = None, requires_grad = True\<rparr>],
         H_list = [\<lparr>data = [Fin (24 / 29), Fin (34 / 29)],
                     grad = Some [Fin (5 / 2), Fin (- (5 / 2))], requires_grad = True\<rparr>],
         rank = 1, m_examples = 2, n_features = 2\<rparr>,
        [(0, Fin (1 / 8))])"
  by code_simp

text \<open>
  C10. Calling \<open>fit\<close> with \<open>max_iter = 0\<close> raises an unbound-variable error
  instead of returning an iteration count; \<open>fit\<close> returns normally only when
  \<open>max_iter \<ge> 1\<close> and at least one of the two update steps is executed (its guard,
  line 133 or line 143, holds).
\<close>

theorem fit_unbound:
  "fit bdiv self X update_W update_H beta tol 0 alpha l1_ratio = Inl UnboundLocalError \<and>
   (\<forall>r. fit bdiv self X update_W update_H beta tol max_iter alpha l1_ratio = Inr r \<longrightarrow>
        1 \<le> max_iter \<and>
        (update_W \<and> list_ex requires_grad (W_list self) \<or>
         update_H \<and> list_ex requires_grad (H_list self)))"
proof (intro conjI allI impI)
  show "fit bdiv self X update_W update_H beta tol 0 alpha l1_ratio = Inl UnboundLocalError"
    by (rule fit_no_pass) simp
next
  fix r
  assume r: "fit bdiv self X update_W update_H beta tol max_iter alpha l1_ratio = Inr r"
  show "1 \<le> max_iter"
  proof (rule ccontr)
    assume "\<not> 1 \<le> max_iter"
    then have "max_iter \<le> 0" by simp
    from fit_no_pass [OF this] r show False by simp
  qed
  show "update_W \<and> list_ex requires_grad (W_list self) \<or>
        update_H \<and> list_ex requires_grad (H_list self)"
  proof (rule ccontr)
    assume "\<not> ?thesis"
    then have "\<not> (update_W \<and> list_ex requires_grad (W_list self))"
      and "\<not> (update_H \<and> list_ex requires_grad (H_list self))" by blast+
    from fit_no_step [OF this] r show False by simp
  qed
qed

theorem fit_unbound_witness:
  "fit beta_divergence_sq ex_model ex_X True True 2 0 0 0 0 = Inl UnboundLocalError \<and>
   (\<exists>r. fit beta_divergence_sq ex_model ex_X True True 2 0 1 0 0 = Inr r) \<and>
   (1::int) \<le> 1 \<and>
   (True \<and> list_ex requires_grad (W_list ex_model) \<or>
    True \<and> list_ex requires_grad (H_list ex_model))"
  using fit_unbound [of beta_divergence_sq ex_model ex_X True True 2 0 0 0 1]
    ex_model_one_pass
  by simp

text \<open>
  C9. When a requested update side has no trainable block, that side is skipped and
  \<open>fit\<close> returns without an exception, in particular when all blocks of both
  factors are fixed. The run below is the call with every block fixed and the
  default arguments: it raises.
\<close>

theorem fit_all_fixed_raises:
  "fit beta_divergence_sq ex_all_fixed ex_X True True 2 (1 / 100000) 200 0 0
   = Inl UnboundLocalError"
  by (rule fit_no_step) (simp_all add: ex_all_fixed_def block_def)

text \<open>
  C2. A block marked fixed has the same value before and after \<open>fit\<close>, for every
  regularisation setting. The run below has the first \<open>W\<close> block fixed at \<open>1\<close> and
  \<open>alpha = 1\<close>, \<open>l1_ratio = 1\<close>: after one pass the fixed block holds \<open>2 / 3\<close>.
\<close>

theorem fit_fixed_block_changes:
  "fit beta_divergence_sq ex_first_fixed ex_X True True 2 0 1 1 1 =
   Inr (0,
        \<lparr>W_list = [\<lparr>data = [Fin (2 / 3)], grad = None, requires_grad = False\<rparr>,
                   \<lparr>data = [Fin (7 / 3)], grad = None, requires_grad = True\<rparr>],
         H_list = [\<lparr>data = [Fin (69 / 62), Fin (48 / 31)],
                     grad = Some [Fin (- (16 / 9)), Fin (- (43 / 9))], requires_grad = True\<rparr>],
         rank = 1, m_examples = 2, n_features = 2\<rparr>,
        [(0, Fin (23 / 36))])"
  by code_simp


subsection \<open>The positive-term oracles of \<open>NMF\<close>\<close>

lemma fl_pow_one [simp]: "fl_pow x 1 = x"
  by (cases x) (auto simp add: is_int_def odd_int_def)

lemma tpow_one [simp]: "tpow t 1 = t"
  by (simp add: tpow_def map_idI)

text \<open>
  C6. For \<open>beta = 1\<close>, \<open>get_W_positive\<close> returns the row sums of \<open>H\<close> as a one-row
  tensor (the shape that broadcasts along the example axis), which it computes only
  when the cache argument is \<open>None\<close> and otherwise takes from the cache; for any
  other \<open>beta\<close> it returns \<open>WH ^ (beta - 1) @ H\<^sup>T\<close>, where for \<open>beta = 2\<close> the
  power is skipped, which is the same value. Symmetrically \<open>get_H_positive\<close>
  returns the column sums of \<open>W\<close> as a one-column tensor, or
  \<open>W\<^sup>T @ WH ^ (beta - 1)\<close>.
\<close>

theorem positive_terms:
  "(nmf_H self = Inr H \<longrightarrow>
      get_W_positive self WH 1 None = Inr ([map fl_sum H], Some (map fl_sum H)) \<and>
      get_W_positive self WH 1 (Some s) = Inr ([s], Some s) \<and>
      (beta \<noteq> 1 \<longrightarrow> get_W_positive self WH beta c =
         bindE (matmul (tpow WH (beta - 1)) (transpose H)) (\<lambda>d. Inr (d, c))) \<and>
      get_W_positive self WH 2 c = bindE (matmul WH (transpose H)) (\<lambda>d. Inr (d, c))) \<and>
   (nmf_W self = Inr W \<longrightarrow>
      get_H_positive self WH 1 None =
        Inr (map (\<lambda>x. [x]) (map fl_sum (transpose W)), Some (map fl_sum (transpose W))) \<and>
      get_H_positive self WH 1 (Some s) = Inr (map (\<lambda>x. [x]) s, Some s) \<and>
      (beta \<noteq> 1 \<longrightarrow> get_H_positive self WH beta c =
         bindE (matmul (transpose W) (tpow WH (beta - 1))) (\<lambda>d. Inr (d, c))) \<and>
      get_H_positive self WH 2 c = bindE (matmul (transpose W) WH) (\<lambda>d. Inr (d, c)))"
  by (simp add: get_W_positive_def get_H_positive_def Let_def)

theorem positive_terms_witness:
  "nmf_H ex_model = Inr [[Fin 1, Fin 1]] \<and> nmf_W ex_model = Inr [[Fin 1], [Fin 1]] \<and>
   (3::real) \<noteq> 1 \<and>
   get_W_positive ex_model ex_X 1 None = Inr ([[Fin 2]], Some [Fin 2]) \<and>
   get_W_positive ex_model ex_X 1 (Some [Fin 7]) = Inr ([[Fin 7]], Some [Fin 7]) \<and>
   get_W_positive ex_model ex_X 3 None = Inr ([[Fin 5], [Fin 25]], None) \<and>
   get_W_positive ex_model ex_X 2 None = Inr ([[Fin 3], [Fin 7]], None) \<and>
   get_H_positive ex_model ex_X 1 None = Inr ([[Fin 2]], Some [Fin 2]) \<and>
   get_H_positive ex_model ex_X 1 (Some [Fin 7]) = Inr ([[Fin 7]], Some [Fin 7]) \<and>
   get_H_positive ex_model ex_X 3 None = Inr ([[Fin 10, Fin 20]], None) \<and>
   get_H_positive ex_model ex_X 2 None = Inr ([[Fin 4, Fin 6]], None)"
proof -
  have H: "nmf_H ex_model = Inr [[Fin 1, Fin 1]]"
    by (simp add: nmf_H_def ex_model_def block_def cat_def)
  have W: "nmf_W ex_model = Inr [[Fin 1], [Fin 1]]"
    by (simp add: nmf_W_def ex_model_def block_def cat_def)
  have b: "(3::real) \<noteq> 1" by simp
  show ?thesis
    using H W b
      positive_terms [where self = ex_model and WH = ex_X and beta = 3 and c = None
        and s = "[Fin 7]" and H = "[[Fin 1, Fin 1]]" and W = "[[Fin 1], [Fin 1]]"]
    by (simp add: ex_X_def matmul_def nrows_def ncols_def dot_def fl_sum_def tpow_def)
qed

subsection \<open>Construction\<close>

lemma make_blocks_Inl: "make_blocks rnd shp initial fix = Inl e \<Longrightarrow> e = IndexError"
  by (auto simp add: make_blocks_def Let_def split: if_splits)

lemma make_blocks_Some:
  assumes "length fix \<le> length ws"
  shows "\<exists>l. make_blocks rnd shp (Some ws) fix = Inr l \<and> map data l = ws"
proof -
  have "map data (map (\<lambda>(i, x). if i < length fix then x\<lparr>requires_grad := \<not> fix ! i\<rparr> else x)
           (enumerate 0 (map (\<lambda>w. \<lparr>data = w, grad = None, requires_grad = True\<rparr>) ws))) = ws"
    by (rule nth_equalityI) (simp_all add: nth_enumerate_eq)
  moreover have "map data (map (\<lambda>w. \<lparr>data = w, grad = None, requires_grad = True\<rparr>) ws) = ws"
    by (simp add: comp_def)
  ultimately show ?thesis using assms
    by (simp add: make_blocks_def Let_def)
qed

text \<open>
  C8, as the code has it. The constructor does not compare the supplied initial
  values with the declared shapes or the rank: whenever no tuple of fixed flags is
  longer than the list of blocks it succeeds, and the supplied values are the blocks
  as they are. The only exception it raises is the \<open>IndexError\<close> of a flag without
  a block.
\<close>

theorem NMF_init_unchecked:
  "(NMF_init rndW rndH X_shape k ic fc iw fw = Inl e \<longrightarrow> e = IndexError) \<and>
   (length fw \<le> length ws \<and> length fc \<le> length hs \<longrightarrow>
      (\<exists>self. NMF_init rndW rndH X_shape k (Some hs) fc (Some ws) fw = Inr self \<and>
              map data (W_list self) = ws \<and> map data (H_list self) = hs))"
proof (intro conjI impI)
  assume "NMF_init rndW rndH X_shape k ic fc iw fw = Inl e"
  then show "e = IndexError"
    by (cases X_shape)
      (auto simp add: NMF_init_def NMFBase_init_def bindE_def
        split: sum.splits dest: make_blocks_Inl)
next
  assume a: "length fw \<le> length ws \<and> length fc \<le> length hs"
  obtain m n where X: "X_shape = (m, n)" by (cases X_shape)
  from a obtain wl where wl: "make_blocks rndW (m, k) (Some ws) fw = Inr wl" "map data wl = ws"
    using make_blocks_Some by blast
  from a obtain hl where hl: "make_blocks rndH (k, n) (Some hs) fc = Inr hl" "map data hl = hs"
    using make_blocks_Some by blast
  show "\<exists>self. NMF_init rndW rndH X_shape k (Some hs) fc (Some ws) fw = Inr self \<and>
              map data (W_list self) = ws \<and> map data (H_list self) = hs"
    using X wl hl by (simp add: NMF_init_def NMFBase_init_def)
qed

theorem NMF_init_unchecked_witness:
  "NMF_init half_draw half_draw (2, 2) 1 None [] (Some [[Fin 1]]) [True, True] = Inl IndexError \<and>
   length [True] \<le> length [[Fin 1, Fin 2, Fin 3]] \<and>
   length ([]::bool list) \<le> length [[Fin 4], [Fin 5]] \<and>
   (\<exists>self. NMF_init half_draw half_draw (2, 2) 1 (Some [[Fin 4], [Fin 5]]) []
              (Some [[Fin 1, Fin 2, Fin 3]]) [True] = Inr self \<and>
           map data (W_list self) = [[Fin 1, Fin 2, Fin 3]] \<and>
           map data (H_list self) = [[Fin 4], [Fin 5]])"
proof -
  have e: "NMF_init half_draw half_draw (2, 2) 1 None [] (Some [[Fin 1]]) [True, True]
           = Inl IndexError"
    by (simp add: NMF_init_def NMFBase_init_def make_blocks_def)
  show ?thesis
    using e
      NMF_init_unchecked [where ws = "[[Fin 1, Fin 2, Fin 3]]" and hs = "[[Fin 4], [Fin 5]]"
        and fw = "[True]" and fc = "[]" and rndW = half_draw and rndH = half_draw
        and X_shape = "(2, 2)" and k = 1 and ic = None and iw = "Some [[Fin 1]]"
        and e = IndexError]
    by simp
qed

text \<open>
  C8, as the spec has it: a construction whose initial values are inconsistent with
  the declared shapes fails. Here the declared shape of \<open>W\<close> is \<open>(2, 1)\<close> and the
  supplied \<open>initial_weights\<close> are a single block of three entries: the construction
  succeeds.
\<close>

theorem NMF_init_counterexample:
  "NMF_init half_draw half_draw (2, 2) 1 None [] (Some [[Fin 1, Fin 2, Fin 3]]) [] =
   Inr \<lparr>W_list = [\<lparr>data = [Fin 1, Fin 2, Fin 3], grad = None, requires_grad = True\<rparr>],
        H_list = [\<lparr>data = [Fin (1 / 2), Fin (1 / 2)], grad = None, requires_grad = True\<rparr>],
        rank = 1, m_examples = 2, n_features = 2\<rparr>"
  by code_simp


subsection \<open>The passes of \<open>fit\<close>\<close>

lemma W_step_frame:
  assumes "W_step bdiv X beta gamma l1_reg l2_reg st = Inr st'"
  shows "printed st' = printed st \<and> loss_init st' = loss_init st \<and>
         previous_loss st' = previous_loss st \<and> (\<exists>l. loss st' = LossTensor l)"
  using assms
  by (auto simp add: W_step_def Let_def bindE_eq_Inr split: prod.splits)

lemma H_step_frame:
  assumes "H_step bdiv X beta gamma l1_reg l2_reg st = Inr st'"
  shows "printed st' = printed st \<and> loss_init st' = loss_init st \<and>
         previous_loss st' = previous_loss st \<and> (\<exists>l. loss st' = LossTensor l)"
  using assms
  by (auto simp add: H_step_def Let_def bindE_eq_Inr split: prod.splits)

lemma steps_frame:
  assumes "(if c1 then W_step bdiv X beta gamma l1_reg l2_reg st else Inr st) = Inr st1"
    and "(if c2 then H_step bdiv X beta gamma l1_reg l2_reg st1 else Inr st1) = Inr st2"
  shows "printed st2 = printed st \<and> loss_init st2 = loss_init st \<and>
         previous_loss st2 = previous_loss st"
  using assms W_step_frame [of bdiv X beta gamma l1_reg l2_reg st st1]
    H_step_frame [of bdiv X beta gamma l1_reg l2_reg st1 st2]
  by (auto split: if_splits)

lemma fit_body_pass:
  assumes "fit_body bdiv X uW uH beta tol gamma l1_reg l2_reg a st = Inr (brk, st')"
  shows "\<exists>l. printed st' = printed st @ [(a, l)] \<and>
             (a = 0 \<longrightarrow> \<not> brk \<and> loss_init st' = Some l \<and> previous_loss st' = Some l) \<and>
             (0 < a \<longrightarrow> loss_init st' = loss_init st \<and>
                converged (previous_loss st) l (loss_init st) tol = Inr brk \<and>
                previous_loss st' = (if brk then previous_loss st else Some l))"
proof -
  from assms obtain st1 st2 l where
    s1: "(if uW \<and> list_ex requires_grad (W_list (model st))
          then W_step bdiv X beta gamma l1_reg l2_reg st else Inr st) = Inr st1"
    and s2: "(if uH \<and> list_ex requires_grad (H_list (model st1))
          then H_step bdiv X beta gamma l1_reg l2_reg st1 else Inr st1) = Inr st2"
    and rest: "(let st3 = st2\<lparr>loss := LossFloat l, printed := printed st2 @ [(a, l)]\<rparr> in
       if a = 0 then Inr (False, st3\<lparr>loss_init := Some l, previous_loss := Some l\<rparr>)
       else bindE (converged (previous_loss st3) l (loss_init st3) tol) (\<lambda>brk.
              if brk then Inr (True, st3)
              else Inr (False, st3\<lparr>previous_loss := Some l\<rparr>))) = Inr (brk, st')"
    unfolding fit_body_def bindE_eq_Inr by blast
  from steps_frame [OF s1 s2]
  have fr: "printed st2 = printed st" "loss_init st2 = loss_init st"
    "previous_loss st2 = previous_loss st" by simp_all
  show ?thesis
  proof (cases "a = 0")
    case True
    with rest fr show ?thesis by (auto simp add: Let_def)
  next
    case False
    with rest fr show ?thesis
      by (auto simp add: Let_def bindE_eq_Inr split: if_splits)
  qed
qed


lemma stop_test_append:
  assumes "j < length out"
  shows "stop_test tol (out @ [x]) j = stop_test tol out j"
proof -
  from assms have "j - 1 < length out" and "0 < length out" by auto
  with assms show ?thesis by (simp add: stop_test_def nth_append)
qed

lemma loop_inv_done: "loop_inv tol (Suc n) st \<Longrightarrow> loop_done tol n st"
  by (simp add: loop_inv_def loop_done_def)

lemma body_inv:
  assumes inv: "loop_inv tol a st"
    and body: "fit_body bdiv X uW uH beta tol gamma l1_reg l2_reg a st = Inr (brk, st')"
  shows "(\<not> brk \<longrightarrow> loop_inv tol (Suc a) st') \<and>
         (brk \<longrightarrow> 0 < a \<and> stop_test tol (printed st') a \<and> loop_done tol a st')"
proof -
  from fit_body_pass [OF body] obtain l where
    pr: "printed st' = printed st @ [(a, l)]"
    and z: "a = 0 \<longrightarrow> \<not> brk \<and> loss_init st' = Some l \<and> previous_loss st' = Some l"
    and p: "0 < a \<longrightarrow> loss_init st' = loss_init st \<and>
                converged (previous_loss st) l (loss_init st) tol = Inr brk \<and>
                previous_loss st' = (if brk then previous_loss st else Some l)"
    by blast
  from inv have len: "length (printed st) = a"
    by (metis loop_inv_def length_map length_upt diff_zero)
  from inv have idx: "map fst (printed st') = [0..<Suc a]"
    by (simp add: pr loop_inv_def)
  from inv len have old: "\<forall>j. 0 < j \<and> j < a \<longrightarrow> \<not> stop_test tol (printed st') j"
    by (simp add: pr loop_inv_def stop_test_append)
  show ?thesis
  proof (cases "a = 0")
    case True
    with z pr idx show ?thesis
      by (simp add: loop_inv_def)
  next
    case False
    then have a: "0 < a" by simp
    with inv have li: "loss_init st = Some (snd (printed st ! 0))"
      and pl: "previous_loss st = Some (snd (printed st ! (a - 1)))"
      by (simp_all add: loop_inv_def)
    from p a have c: "converged (previous_loss st) l (loss_init st) tol = Inr brk" by simp
    have test: "stop_test tol (printed st') a = brk"
      using c a len
      by (simp add: li pl converged_def stop_test_def pr nth_append split: if_splits)
    have first: "printed st' ! 0 = printed st ! 0"
      using a len by (simp add: pr nth_append)
    have last: "printed st' ! a = (a, l)"
      using len by (simp add: pr nth_append)
    show ?thesis
    proof (cases brk)
      case True
      with a test idx old show ?thesis by (simp add: loop_done_def)
    next
      case False
      have "\<forall>j. 0 < j \<and> j < Suc a \<longrightarrow> \<not> stop_test tol (printed st') j"
        using old test False by (auto simp add: less_Suc_eq)
      moreover have "loss_init st' = Some (snd (printed st' ! 0))"
        using p a li first by simp
      moreover have "previous_loss st' = Some (snd (printed st' ! (Suc a - 1)))"
        using p a False last by simp
      ultimately show ?thesis using False idx
        by (simp add: loop_inv_def)
    qed
  qed
qed

lemma fit_loop_run:
  assumes "loop_inv tol a st"
    and "fit_loop (fit_body bdiv X uW uH beta tol gamma l1_reg l2_reg) [a..<a + k] prev st
         = Inr (r, st')"
    and "0 < k"
  shows "\<exists>n. r = Some n \<and> a \<le> n \<and> n < a + k \<and> loop_done tol n st' \<and>
             (Suc n < a + k \<longrightarrow> 0 < n \<and> stop_test tol (printed st') n)"
  using assms
proof (induction k arbitrary: a st prev)
  case 0
  then show ?case by simp
next
  case (Suc k)
  define ns where "ns = [Suc a..<Suc a + k]"
  have l: "[a..<a + Suc k] = a # ns"
    by (simp add: upt_conv_Cons ns_def)
  from Suc.prems(2) obtain brk st1 where
    b: "fit_body bdiv X uW uH beta tol gamma l1_reg l2_reg a st = Inr (brk, st1)"
    and rest0: "(if brk then Inr (Some a, st1)
                else fit_loop (fit_body bdiv X uW uH beta tol gamma l1_reg l2_reg)
                       ns (Some a) st1) = Inr (r, st')"
    unfolding l by (auto simp add: bindE_eq_Inr)
  from rest0 have rest: "(if brk then Inr (Some a, st1)
                else fit_loop (fit_body bdiv X uW uH beta tol gamma l1_reg l2_reg)
                       [Suc a..<Suc a + k] (Some a) st1) = Inr (r, st')"
    by (simp only: ns_def)
  from body_inv [OF Suc.prems(1) b]
  have nb: "\<not> brk \<longrightarrow> loop_inv tol (Suc a) st1"
    and br: "brk \<longrightarrow> 0 < a \<and> stop_test tol (printed st1) a \<and> loop_done tol a st1"
    by simp_all
  show ?case
  proof (cases brk)
    case True
    with rest br show ?thesis by auto
  next
    case False
    with nb have inv1: "loop_inv tol (Suc a) st1" by simp
    from False rest have run: "fit_loop (fit_body bdiv X uW uH beta tol gamma l1_reg l2_reg)
                       [Suc a..<Suc a + k] (Some a) st1 = Inr (r, st')" by simp
    show ?thesis
    proof (cases k)
      case 0
      with run have "r = Some a" "st' = st1" by simp_all
      with inv1 0 show ?thesis by (simp add: loop_inv_done)
    next
      case (Suc k')
      then have "0 < k" by simp
      from Suc.IH [OF inv1 run this] show ?thesis by auto
    qed
  qed
qed

lemma cat_cong:
  assumes "cat bs = Inr t" and "map length bs' = map length bs"
  shows "cat bs' = Inr bs'"
proof -
  from assms(1) obtain b rest where bs: "bs = b # rest"
    and all: "list_all (\<lambda>x. length x = length b) bs"
    by (auto simp add: cat_def split: list.splits if_splits)
  from assms(2) bs obtain b' rest' where bs': "bs' = b' # rest'" and lb: "length b' = length b"
    by (cases bs') auto
  have "list_all (\<lambda>x. length x = length b') bs'"
  proof -
    from all have "\<forall>n \<in> set (map length bs). n = length b" by (auto simp add: list_all_iff)
    with assms(2) have "\<forall>n \<in> set (map length bs'). n = length b" by simp
    with lb show ?thesis by (auto simp add: list_all_iff)
  qed
  with bs' show ?thesis by (simp add: cat_def)
qed

lemma mul_row_len:
  assumes "mul_row multiplier (i, x) = Inr y"
  shows "length (data y) = length (data x)"
proof -
  from assms have l: "length (multiplier ! i) = length (data x) \<or> length (multiplier ! i) = 1"
    and y: "y = x\<lparr>data := map2 fl_mul (data x) (expand_to (length (data x)) (multiplier ! i))\<rparr>"
    by (auto simp add: mul_row_def Let_def split: if_splits)
  have "length (expand_to (length (data x)) (multiplier ! i)) = length (data x)"
  proof (cases "length (multiplier ! i) = 1")
    case True
    then obtain v where "multiplier ! i = [v]"
      by (cases "multiplier ! i") auto
    then show ?thesis by (simp add: expand_to_def)
  next
    case False
    with l have e: "length (multiplier ! i) = length (data x)" by simp
    from False have "expand_to (length (data x)) (multiplier ! i) = multiplier ! i"
      by (cases "multiplier ! i" rule: list.exhaust [case_product list.exhaust])
        (auto simp add: expand_to_def split: list.splits)
    with e show ?thesis by simp
  qed
  with y show ?thesis by simp
qed

lemma mapE_mul_row_len:
  assumes "mapE (mul_row multiplier) (enumerate k ps) = Inr ps'"
  shows "map (\<lambda>x. length (data x)) ps' = map (\<lambda>x. length (data x)) ps"
  using assms
proof (induction ps arbitrary: k ps')
  case Nil
  then show ?case by simp
next
  case (Cons x xs)
  from Cons.prems obtain y ys where y: "mul_row multiplier (k, x) = Inr y"
    and ys: "mapE (mul_row multiplier) (enumerate (Suc k) xs) = Inr ys" and p: "ps' = y # ys"
    by (auto simp add: bindE_eq_Inr)
  from mul_row_len [OF y] Cons.IH [OF ys] p show ?case by simp
qed

lemma mu_update_list_len:
  assumes "mu_update (PList ps) pos gamma l1_reg l2_reg = Inr (p', pos')"
  shows "\<exists>ps'. p' = PList ps' \<and>
           map (\<lambda>x. length (data x)) ps' = map (\<lambda>x. length (data x)) ps"
proof -
  from assms obtain g where
    r: "(case g of
         None \<Rightarrow> Inr (PList ps, pos)
       | Some gr \<Rightarrow>
           bindE (bc2 fl_sub pos gr) (\<lambda>d.
             let multiplier = map (map fl_relu) d;
                 pos1 = (if l1_reg > 0 then map (map (\<lambda>x. fl_add x (Fin l1_reg))) pos else pos)
             in bindE (mu_l2 (PList ps) pos1 l2_reg) (\<lambda>(pos2, pos_obj).
                  bindE (bc2_inplace fl_div multiplier pos2) (\<lambda>ratio.
                    let multiplier' = (if gamma \<noteq> 1 then tpow ratio gamma else ratio)
                    in bindE (mu_apply (PList ps) multiplier') (\<lambda>p'. Inr (p', pos_obj))))))
         = Inr (p', pos')"
    unfolding mu_update_def bindE_eq_Inr by blast
  show ?thesis
  proof (cases g)
    case None
    with r show ?thesis by auto
  next
    case (Some gr)
    with r obtain mult where "mu_apply (PList ps) mult = Inr p'"
      by (auto simp add: bindE_eq_Inr Let_def split: prod.splits)
    then obtain ps' where "mapE (mul_row mult) (enumerate 0 ps) = Inr ps'" and "p' = PList ps'"
      by (auto simp add: mu_apply_def bindE_eq_Inr)
    with mapE_mul_row_len [OF this(1)] show ?thesis by simp
  qed
qed

lemma set_grads_data: "length g = length ps \<Longrightarrow> map data (set_grads g ps) = map data ps"
  by (rule nth_equalityI) (simp_all add: set_grads_def)

lemma matmul_length: "matmul a b = Inr t \<Longrightarrow> length t = length a"
  by (auto simp add: matmul_def split: if_splits)

lemma threshold_backward_length: "threshold_backward dY WH = Inr G \<Longrightarrow> length G = length WH"
proof -
  assume a: "threshold_backward dY WH = Inr G"
  then have "map length dY = map length WH" by (simp add: threshold_backward_def split: if_splits)
  then have "length dY = length WH" by (metis length_map)
  with a show ?thesis by (auto simp add: threshold_backward_def split: if_splits)
qed

lemma W_step_cat:
  assumes "W_step bdiv X beta gamma l1_reg l2_reg st = Inr st'"
  shows "cat_W_ok (model st')"
proof -
  define self where "self = zero_grad (model st)"
  from assms obtain H W WH dY G gW p pos pos_obj where
    W: "nmf_W self = Inr W" and WH: "reconstruct H W = Inr WH"
    and G: "threshold_backward dY WH = Inr G" and gW: "matmul G (transpose H) = Inr gW"
    and mu: "mu_update (PList (set_grads gW (W_list self))) pos gamma l1_reg l2_reg
             = Inr (p, pos_obj)"
    and st': "model st' = self\<lparr>W_list := blocks_of p (set_grads gW (W_list self))\<rparr>"
    by (auto simp add: W_step_def Let_def bindE_eq_Inr self_def split: prod.splits)
  from W have c: "cat (map data (W_list self)) = Inr W" by (simp add: nmf_W_def)
  from cat_Inr [OF c] have "length W = length (W_list self)" by simp
  with matmul_length [OF gW] threshold_backward_length [OF G]
    matmul_length [OF WH [unfolded reconstruct_def]]
  have "length gW = length (W_list self)" by simp
  from set_grads_data [OF this] have d: "map data (set_grads gW (W_list self)) = map data (W_list self)" .
  from mu_update_list_len [OF mu] obtain ps' where p: "p = PList ps'"
    and len: "map (\<lambda>x. length (data x)) ps' = map (\<lambda>x. length (data x)) (set_grads gW (W_list self))"
    by blast
  have "map length (map data (set_grads gW (W_list self))) = map length (map data (W_list self))"
    using d by simp
  then have "map (\<lambda>x. length (data x)) (set_grads gW (W_list self))
             = map (\<lambda>x. length (data x)) (W_list self)"
    by (simp add: comp_def)
  with len have "map length (map data ps') = map length (map data (W_list self))"
    by (simp add: comp_def)
  from cat_cong [OF c this] p show ?thesis
    unfolding st' by (simp add: cat_W_ok_def blocks_of_def)
qed

lemma H_step_cat:
  assumes "H_step bdiv X beta gamma l1_reg l2_reg st = Inr st'"
  shows "cat_W_ok (model st')"
proof -
  define self where "self = zero_grad (model st)"
  from assms obtain W where W: "nmf_W self = Inr W" and wl: "W_list (model st') = W_list self"
    by (auto simp add: H_step_def Let_def bindE_eq_Inr self_def split: prod.splits)
  from W have c: "cat (map data (W_list self)) = Inr W" by (simp add: nmf_W_def)
  from cat_Inr [OF c] c wl show ?thesis by (simp add: cat_W_ok_def)
qed


lemma fit_body_cat:
  assumes "fit_body bdiv X uW uH beta tol gamma l1_reg l2_reg a st = Inr (brk, st')"
    and "\<forall>v. loss st \<noteq> LossTensor v"
  shows "cat_W_ok (model st') \<and> (\<forall>v. loss st' \<noteq> LossTensor v)"
proof -
  from assms(1) obtain st1 st2 l where
    s1: "(if uW \<and> list_ex requires_grad (W_list (model st))
          then W_step bdiv X beta gamma l1_reg l2_reg st else Inr st) = Inr st1"
    and s2: "(if uH \<and> list_ex requires_grad (H_list (model st1))
          then H_step bdiv X beta gamma l1_reg l2_reg st1 else Inr st1) = Inr st2"
    and ls: "(case loss st2 of
              Unbound \<Rightarrow> Inl UnboundLocalError
            | LossFloat v \<Rightarrow> Inl AttributeError
            | LossTensor v \<Rightarrow> Inr (fl_div v (loss_scale X))) = Inr l"
    and rest: "(let st3 = st2\<lparr>loss := LossFloat l, printed := printed st2 @ [(a, l)]\<rparr> in
       if a = 0 then Inr (False, st3\<lparr>loss_init := Some l, previous_loss := Some l\<rparr>)
       else bindE (converged (previous_loss st3) l (loss_init st3) tol) (\<lambda>brk.
              if brk then Inr (True, st3)
              else Inr (False, st3\<lparr>previous_loss := Some l\<rparr>))) = Inr (brk, st')"
    unfolding fit_body_def bindE_eq_Inr by blast
  from ls obtain v where v: "loss st2 = LossTensor v"
    by (cases "loss st2") simp_all
  have c2: "cat_W_ok (model st2)"
  proof (cases "uH \<and> list_ex requires_grad (H_list (model st1))")
    case True
    with s2 show ?thesis by (auto intro: H_step_cat)
  next
    case False
    with s2 have e: "st2 = st1" by simp
    show ?thesis
    proof (cases "uW \<and> list_ex requires_grad (W_list (model st))")
      case True
      with s1 e show ?thesis by (auto intro: W_step_cat)
    next
      case False
      with s1 e v assms(2) show ?thesis by simp
    qed
  qed
  from rest have "model st' = model st2 \<and> (\<exists>l'. loss st' = LossFloat l')"
    by (auto simp add: Let_def bindE_eq_Inr split: if_splits)
  with c2 show ?thesis by auto
qed

lemma fit_loop_cat:
  assumes "fit_loop (fit_body bdiv X uW uH beta tol gamma l1_reg l2_reg) ns prev st = Inr (r, st')"
    and "\<forall>v. loss st \<noteq> LossTensor v" and "ns \<noteq> []"
  shows "cat_W_ok (model st')"
  using assms
proof (induction ns arbitrary: prev st)
  case Nil
  then show ?case by simp
next
  case (Cons a ns)
  from Cons.prems(1) obtain brk st1 where
    b: "fit_body bdiv X uW uH beta tol gamma l1_reg l2_reg a st = Inr (brk, st1)"
    and rest: "(if brk then Inr (Some a, st1)
                else fit_loop (fit_body bdiv X uW uH beta tol gamma l1_reg l2_reg)
                       ns (Some a) st1) = Inr (r, st')"
    by (auto simp add: bindE_eq_Inr)
  from fit_body_cat [OF b Cons.prems(2)]
  have c: "cat_W_ok (model st1)" and l: "\<forall>v. loss st1 \<noteq> LossTensor v" by simp_all
  show ?case
  proof (cases "brk \<or> ns = []")
    case True
    with rest c show ?thesis by (auto split: if_splits)
  next
    case False
    with rest have "fit_loop (fit_body bdiv X uW uH beta tol gamma l1_reg l2_reg)
                       ns (Some a) st1 = Inr (r, st')" and "ns \<noteq> []" by simp_all
    from Cons.IH [OF this(1) l this(2)] show ?thesis .
  qed
qed

lemma fit_cat:
  assumes "fit bdiv self X uW uH beta tol max_iter alpha l1_ratio = Inr (n, self', out)"
  shows "cat (map data (W_list self')) = Inr (map data (W_list self'))"
proof -
  let ?st0 = "\<lparr>model = self, H_sum = None, W_sum = None, loss = Unbound,
                 loss_init = None, previous_loss = None, printed = [], calls = []\<rparr>"
  from assms obtain r st where
    run: "fit_loop (fit_body bdiv (fix_neg X) uW uH beta tol (fit_gamma beta)
                 (alpha * l1_ratio) (alpha * (1 - l1_ratio))) [0..<nat max_iter] None ?st0
          = Inr (r, st)"
    and res: "(case r of None \<Rightarrow> Inl UnboundLocalError
               | Some n \<Rightarrow> Inr (n, model st, printed st)) = Inr (n, self', out)"
    by (auto simp add: fit_def fit_run_def Let_def bindE_eq_Inr)
  have ne: "[0..<nat max_iter] \<noteq> []"
  proof
    assume "[0..<nat max_iter] = []"
    with run res show False by simp
  qed
  have "\<forall>v. loss ?st0 \<noteq> LossTensor v" by simp
  from fit_loop_cat [OF run this ne] res show ?thesis
    by (auto simp add: cat_W_ok_def split: option.splits)
qed

text \<open>
  C7, as the code has it. \<open>fit\<close> makes at most \<open>max_iter\<close> passes and returns the
  index of the last pass, which is the number of passes made less one. It makes
  fewer than \<open>max_iter\<close> passes only when the test of line 158 holds at the last
  pass (for \<open>tol = 0\<close>: when the printed loss has risen), and the test holds at no
  earlier pass. Whenever \<open>fit\<close> returns, \<open>fit_transform\<close> returns that index
  together with the concatenated final \<open>W\<close>.
\<close>

theorem fit_iterations:
  assumes "fit bdiv self X uW uH beta tol max_iter alpha l1_ratio = Inr (n, self', out)"
  shows "map fst out = [0..<n + 1] \<and> int (n + 1) \<le> max_iter \<and>
         (int (n + 1) < max_iter \<longrightarrow> 0 < n \<and> stop_test tol out n) \<and>
         (\<forall>j. 0 < j \<and> j < n \<longrightarrow> \<not> stop_test tol out j) \<and>
         fit_transform bdiv self X uW uH beta tol max_iter alpha l1_ratio =
           Inr ((n, map data (W_list self')), self', out)"
proof -
  let ?st0 = "\<lparr>model = self, H_sum = None, W_sum = None, loss = Unbound,
                 loss_init = None, previous_loss = None, printed = [], calls = []\<rparr>"
  let ?body = "fit_body bdiv (fix_neg X) uW uH beta tol (fit_gamma beta)
                 (alpha * l1_ratio) (alpha * (1 - l1_ratio))"
  from assms obtain r st where
    run: "fit_loop ?body [0..<nat max_iter] None ?st0 = Inr (r, st)"
    and res: "(case r of None \<Rightarrow> Inl UnboundLocalError
               | Some n \<Rightarrow> Inr (n, model st, printed st)) = Inr (n, self', out)"
    by (auto simp add: fit_def fit_run_def Let_def bindE_eq_Inr)
  have inv0: "loop_inv tol 0 ?st0" by (simp add: loop_inv_def)
  have k: "0 < nat max_iter"
  proof (rule ccontr)
    assume "\<not> 0 < nat max_iter"
    with run res show False by simp
  qed
  from run have run': "fit_loop ?body [0..<0 + nat max_iter] None ?st0 = Inr (r, st)" by simp
  from fit_loop_run [OF inv0 run' k] res
  have d: "loop_done tol n st" and lt: "n < nat max_iter"
    and stop: "Suc n < nat max_iter \<longrightarrow> 0 < n \<and> stop_test tol (printed st) n"
    and out: "out = printed st"
    by auto
  have ft: "fit_transform bdiv self X uW uH beta tol max_iter alpha l1_ratio =
           Inr ((n, map data (W_list self')), self', out)"
    by (simp add: fit_transform_def assms fit_cat [OF assms])
  from d lt stop out ft show ?thesis
    by (auto simp add: loop_done_def)
qed

lemma ex_scalar_run:
  "fit beta_divergence_sq ex_scalar [[Fin 3]] True False 2 (1 / 4) 5 1 1 =
   Inr (2,
        \<lparr>W_list = [\<lparr>data = [Fin (27 / 14)], grad = Some [Fin (- (6 / 5))],
                     requires_grad = True\<rparr>],
         H_list = [\<lparr>data = [Fin 1], grad = None, requires_grad = True\<rparr>],
         rank = 1, m_examples = 1, n_features = 1\<rparr>,
        [(0, Fin 2), (1, Fin (9 / 8)), (2, Fin (18 / 25))])"
  by code_simp

theorem fit_iterations_witness:
  "fit beta_divergence_sq ex_scalar [[Fin 3]] True False 2 (1 / 4) 5 1 1 =
   Inr (2,
        \<lparr>W_list = [\<lparr>data = [Fin (27 / 14)], grad = Some [Fin (- (6 / 5))],
                     requires_grad = True\<rparr>],
         H_list = [\<lparr>data = [Fin 1], grad = None, requires_grad = True\<rparr>],
         rank = 1, m_examples = 1, n_features = 1\<rparr>,
        [(0, Fin 2), (1, Fin (9 / 8)), (2, Fin (18 / 25))]) \<and>
   int (2 + 1) < 5 \<and> (0::nat) < 2 \<and>
   stop_test (1 / 4) [(0, Fin 2), (1, Fin (9 / 8)), (2, Fin (18 / 25))] 2 \<and>
   (0::nat) < 1 \<and> (1::nat) < 2 \<and>
   \<not> stop_test (1 / 4) [(0, Fin 2), (1, Fin (9 / 8)), (2, Fin (18 / 25))] 1 \<and>
   fit_transform beta_divergence_sq ex_scalar [[Fin 3]] True False 2 (1 / 4) 5 1 1 =
   Inr ((2, [[Fin (27 / 14)]]),
        \<lparr>W_list = [\<lparr>data = [Fin (27 / 14)], grad = Some [Fin (- (6 / 5))],
                     requires_grad = True\<rparr>],
         H_list = [\<lparr>data = [Fin 1], grad = None, requires_grad = True\<rparr>],
         rank = 1, m_examples = 1, n_features = 1\<rparr>,
        [(0, Fin 2), (1, Fin (9 / 8)), (2, Fin (18 / 25))])"
  using fit_iterations [OF ex_scalar_run] ex_scalar_run
  by (simp add: cat_def)

text \<open>
  C7, as the spec has it: with \<open>tol = 0\<close> exactly \<open>max_iter\<close> passes are made, and
  \<open>fit\<close> returns the number of passes made. In the run below \<open>tol = 0\<close> and
  \<open>max_iter = 3\<close>, with \<open>alpha = 1\<close> and \<open>l1_ratio = 1\<close>: the printed loss rises
  from \<open>1 / 8\<close> to \<open>625 / 1458\<close>, two passes are made and \<open>1\<close> is returned.
\<close>

theorem fit_iterations_counterexample:
  "returned_n_iter (fit beta_divergence_sq ex_scalar [[Fin 1]] True True 2 0 3 1 1) = Some 1 \<and>
   passes_made (fit beta_divergence_sq ex_scalar [[Fin 1]] True True 2 0 3 1 1) = Some 2"
proof -
  have "fit beta_divergence_sq ex_scalar [[Fin 1]] True True 2 0 3 1 1 =
        Inr (1,
             \<lparr>W_list = [\<lparr>data = [Fin (5 / 27)], grad = None, requires_grad = True\<rparr>],
              H_list = [\<lparr>data = [Fin (54 / 739)], grad = Some [Fin (- (125 / 729))],
                          requires_grad = True\<rparr>],
              rank = 1, m_examples = 1, n_features = 1\<rparr>,
             [(0, Fin (1 / 8)), (1, Fin (625 / 1458))])"
    by code_simp
  then show ?thesis
    by (simp add: returned_n_iter_def passes_made_def)
qed


subsection \<open>Properties of every entry\<close>











lemma zero_grad_all [simp]: "model_all P (zero_grad self) = model_all P self"
  by (simp add: model_all_def zero_grad_def blocks_all_def list_all_iff)







subsection \<open>The formula of the update\<close>

lemma is_shape_dims: "is_shape m c t \<Longrightarrow> nrows t = m \<and> ncols t = c"
  by (cases t) (auto simp add: is_shape_def nrows_def ncols_def)

lemma is_shape_row: "is_shape m c t \<Longrightarrow> i < m \<Longrightarrow> length (t ! i) = c"
  by (simp add: is_shape_def list_all_length)

lemma is_shapeI:
  "0 < m \<Longrightarrow> length t = m \<Longrightarrow> (\<And>i. i < m \<Longrightarrow> length (t ! i) = c) \<Longrightarrow> is_shape m c t"
  by (simp add: is_shape_def list_all_length)

lemma bget_full: "is_shape m c t \<Longrightarrow> i < m \<Longrightarrow> j < c \<Longrightarrow> bget t i j = t ! i ! j"
  by (auto simp add: bget_def Let_def nrows_def is_shape_def list_all_length)

lemma expand_to_keep: "length xs \<noteq> 1 \<Longrightarrow> expand_to n xs = xs"
  by (cases xs rule: list.exhaust [case_product list.exhaust])
    (auto simp add: expand_to_def split: list.splits)

lemma expand_to_one: "length xs = 1 \<Longrightarrow> expand_to n xs = replicate n (xs ! 0)"
  by (cases xs) (auto simp add: expand_to_def split: list.splits)

lemma expand_to_length: "length xs = n \<or> length xs = 1 \<Longrightarrow> length (expand_to n xs) = n"
  by (cases "length xs = 1") (auto simp add: expand_to_one expand_to_keep)

lemma expand_to_nth:
  "length xs = n \<or> length xs = 1 \<Longrightarrow> i < n \<Longrightarrow>
   expand_to n xs ! i = xs ! (if length xs = 1 then 0 else i)"
  by (cases "length xs = 1") (auto simp add: expand_to_one expand_to_keep)

lemma expand_shape:
  assumes "is_shape ra ca t" and "ra = m \<or> ra = 1" and "ca = c \<or> ca = 1" and "0 < m"
  shows "is_shape m c (expand m c t) \<and>
         (\<forall>i<m. \<forall>j<c. expand m c t ! i ! j = bget t i j)"
proof -
  from assms(1) have lt: "length t = ra" and ra: "0 < ra" by (simp_all add: is_shape_def)
  from assms(2) lt have lm: "length t = m \<or> length t = 1" by auto
  from expand_to_length [OF lm] have l1: "length (expand_to m t) = m" .
  have row: "expand_to m t ! i = t ! (if length t = 1 then 0 else i)" if "i < m" for i
    using expand_to_nth [OF lm that] .
  have idx: "(if length t = 1 then 0 else i) < ra" if "i < m" for i
    using that assms(2) lt ra by auto
  have rl: "length (expand_to m t ! i) = ca" if "i < m" for i
    using row [OF that] is_shape_row [OF assms(1) idx [OF that]] by simp
  have e: "expand m c t ! i = expand_to c (expand_to m t ! i)" if "i < m" for i
    using that l1 by (simp add: expand_def)
  have s: "is_shape m c (expand m c t)"
  proof (rule is_shapeI)
    show "0 < m" by fact
    show "length (expand m c t) = m" using l1 by (simp add: expand_def)
    fix i assume "i < m"
    then have "length (expand_to m t ! i) = c \<or> length (expand_to m t ! i) = 1"
      using rl assms(3) by auto
    from expand_to_length [OF this] e [OF \<open>i < m\<close>] show "length (expand m c t ! i) = c"
      by simp
  qed
  have "expand m c t ! i ! j = bget t i j" if "i < m" and "j < c" for i j
  proof -
    have "expand m c t ! i ! j = expand_to c (expand_to m t ! i) ! j"
      using e that by simp
    also have "\<dots> = (expand_to m t ! i) ! (if length (expand_to m t ! i) = 1 then 0 else j)"
    proof -
      have "length (expand_to m t ! i) = c \<or> length (expand_to m t ! i) = 1"
        using rl [OF that(1)] assms(3) by auto
      from expand_to_nth [OF this that(2)] show ?thesis .
    qed
    also have "\<dots> = bget t i j"
      using row [OF that(1)] by (simp add: bget_def Let_def nrows_def)
    finally show ?thesis .
  qed
  with s show ?thesis by simp
qed


lemma bdim_Some:
  "bdim a b = Some m \<Longrightarrow> (a = m \<or> a = 1) \<and> (b = m \<or> b = 1) \<and> (m = a \<or> m = b)"
  by (auto simp add: bdim_def split: if_splits)

lemma bdim_onto: "b = m \<or> b = 1 \<Longrightarrow> bdim m b = Some m"
  by (auto simp add: bdim_def)

lemma map2_shape:
  assumes "is_shape m c a" and "is_shape m c b"
  shows "is_shape m c (map2 (map2 f) a b) \<and>
         (\<forall>i<m. \<forall>j<c. map2 (map2 f) a b ! i ! j = f (a ! i ! j) (b ! i ! j))"
proof -
  from assms have la: "length a = m" and lb: "length b = m" and m: "0 < m"
    by (simp_all add: is_shape_def)
  have r: "map2 (map2 f) a b ! i = map2 f (a ! i) (b ! i)" if "i < m" for i
    using that la lb by simp
  have "is_shape m c (map2 (map2 f) a b)"
  proof (rule is_shapeI)
    show "0 < m" by fact
    show "length (map2 (map2 f) a b) = m" using la lb by simp
    fix i assume "i < m"
    with r is_shape_row [OF assms(1)] is_shape_row [OF assms(2)]
    show "length (map2 (map2 f) a b ! i) = c" by simp
  qed
  moreover have "map2 (map2 f) a b ! i ! j = f (a ! i ! j) (b ! i ! j)" if "i < m" "j < c" for i j
    using r [OF that(1)] is_shape_row [OF assms(1) that(1)] is_shape_row [OF assms(2) that(1)] that(2)
    by simp
  ultimately show ?thesis by simp
qed

lemma bc2_shape:
  assumes "is_shape ra ca a" and "is_shape rb cb b"
    and "bdim ra rb = Some m" and "bdim ca cb = Some c"
  shows "\<exists>t. bc2 f a b = Inr t \<and> is_shape m c t \<and>
             (\<forall>i<m. \<forall>j<c. t ! i ! j = f (bget a i j) (bget b i j))"
proof -
  from bdim_Some [OF assms(3)] have r: "ra = m \<or> ra = 1" "rb = m \<or> rb = 1" by simp_all
  from bdim_Some [OF assms(4)] have c: "ca = c \<or> ca = 1" "cb = c \<or> cb = 1" by simp_all
  from bdim_Some [OF assms(3)] assms(1,2) have m: "0 < m" by (auto simp add: is_shape_def)
  from expand_shape [OF assms(1) r(1) c(1) m]
  have ea: "is_shape m c (expand m c a)" "\<forall>i<m. \<forall>j<c. expand m c a ! i ! j = bget a i j"
    by simp_all
  from expand_shape [OF assms(2) r(2) c(2) m]
  have eb: "is_shape m c (expand m c b)" "\<forall>i<m. \<forall>j<c. expand m c b ! i ! j = bget b i j"
    by simp_all
  have "bc2 f a b = Inr (map2 (map2 f) (expand m c a) (expand m c b))"
    using assms(3,4) is_shape_dims [OF assms(1)] is_shape_dims [OF assms(2)]
    by (simp add: bc2_def)
  with map2_shape [OF ea(1) eb(1), of f] ea(2) eb(2) show ?thesis by simp
qed

lemma bc2_inplace_shape:
  assumes "is_shape m c a" and "is_shape rb cb b"
    and "rb = m \<or> rb = 1" and "cb = c \<or> cb = 1"
  shows "\<exists>t. bc2_inplace f a b = Inr t \<and> is_shape m c t \<and>
             (\<forall>i<m. \<forall>j<c. t ! i ! j = f (a ! i ! j) (bget b i j))"
proof -
  from assms(1) have m: "0 < m" by (simp add: is_shape_def)
  from expand_shape [OF assms(2) assms(3) assms(4) m]
  have eb: "is_shape m c (expand m c b)" "\<forall>i<m. \<forall>j<c. expand m c b ! i ! j = bget b i j"
    by simp_all
  have "bc2_inplace f a b = Inr (map2 (map2 f) a (expand m c b))"
    using bdim_onto [OF assms(3)] bdim_onto [OF assms(4)]
      is_shape_dims [OF assms(1)] is_shape_dims [OF assms(2)]
    by (simp add: bc2_inplace_def)
  with map2_shape [OF assms(1) eb(1), of f] eb(2) show ?thesis by simp
qed

lemma map_shape:
  assumes "is_shape ra ca t"
  shows "is_shape ra ca (map (map f) t)"
  using assms by (simp add: is_shape_def list_all_iff)

lemma bget_map:
  assumes "is_shape ra ca t" and "ra = m \<or> ra = 1" and "ca = c \<or> ca = 1"
    and "i < m" and "j < c"
  shows "bget (map (map f) t) i j = f (bget t i j)"
proof -
  from assms(1) have lt: "length t = ra" and ra: "0 < ra" by (simp_all add: is_shape_def)
  define i' where "i' = (if nrows t = 1 then 0 else i)"
  have i': "i' < ra" using assms(2,4) lt ra by (auto simp add: i'_def nrows_def)
  from is_shape_row [OF assms(1) i'] have lr: "length (t ! i') = ca" .
  define j' where "j' = (if length (t ! i') = 1 then 0 else j)"
  have j': "j' < ca" using assms(3,5) lr by (auto simp add: j'_def)
  have "bget (map (map f) t) i j = map f (t ! i') ! j'"
    using i' lt by (simp add: bget_def Let_def nrows_def i'_def j'_def)
  also have "\<dots> = f (t ! i' ! j')" using j' lr by simp
  also have "\<dots> = f (bget t i j)" by (simp add: bget_def Let_def i'_def j'_def)
  finally show ?thesis .
qed


lemma bdim_into: "a = m \<or> a = 1 \<Longrightarrow> bdim a m = Some m"
  by (auto simp add: bdim_def)

lemma shape_eq: "is_shape ra ca a \<Longrightarrow> is_shape m c b \<Longrightarrow> (shape a = shape b) = (ra = m \<and> ca = c)"
  by (auto simp add: shape_def dest!: is_shape_dims)

lemma mu_l2_shape:
  assumes reg: "mu_reg_param p = Inr D" and D: "is_shape m c D"
    and pos: "is_shape ra ca pos" and ra: "ra = m \<or> ra = 1" and ca: "ca = c \<or> ca = 1"
  shows "\<exists>pos2 pos_obj rb cb. mu_l2 p pos l2_reg = Inr (pos2, pos_obj) \<and>
           is_shape rb cb pos2 \<and> (rb = m \<or> rb = 1) \<and> (cb = c \<or> cb = 1) \<and>
           (\<forall>i<m. \<forall>j<c. bget pos2 i j =
              (if l2_reg > 0 then fl_add (bget pos i j) (fl_mul (Fin l2_reg) (D ! i ! j))
               else bget pos i j))"
proof (cases "l2_reg > 0")
  case False
  then have "mu_l2 p pos l2_reg = Inr (pos, pos)" by (simp add: mu_l2_def)
  with False pos ra ca show ?thesis by auto
next
  case True
  let ?sc = "map (map (fl_mul (Fin l2_reg))) D"
  have sc: "is_shape m c ?sc" using D by (rule map_shape)
  have sce: "bget ?sc i j = fl_mul (Fin l2_reg) (D ! i ! j)" if "i < m" "j < c" for i j
    using bget_map [OF D _ _ that, of "fl_mul (Fin l2_reg)"] bget_full [OF D that] by simp
  show ?thesis
  proof (cases "shape pos \<noteq> shape D")
    case True
    from bc2_shape [OF pos sc bdim_into [OF ra] bdim_into [OF ca], of fl_add]
    obtain t where t: "bc2 fl_add pos ?sc = Inr t" "is_shape m c t"
      "\<forall>i<m. \<forall>j<c. t ! i ! j = fl_add (bget pos i j) (bget ?sc i j)" by blast
    have "mu_l2 p pos l2_reg = Inr (t, pos)"
      using \<open>l2_reg > 0\<close> True reg t(1) by (simp add: mu_l2_def Let_def)
    moreover have "bget t i j = fl_add (bget pos i j) (fl_mul (Fin l2_reg) (D ! i ! j))"
      if "i < m" "j < c" for i j
      using bget_full [OF t(2) that] t(3) sce [OF that] that by simp
    ultimately show ?thesis using t(2) \<open>l2_reg > 0\<close> by auto
  next
    case False
    with shape_eq [OF pos D] have eq: "ra = m" "ca = c" by simp_all
    from pos eq have pos': "is_shape m c pos" by simp
    from bc2_inplace_shape [OF pos' sc, of fl_add]
    obtain t where t: "bc2_inplace fl_add pos ?sc = Inr t" "is_shape m c t"
      "\<forall>i<m. \<forall>j<c. t ! i ! j = fl_add (pos ! i ! j) (bget ?sc i j)" by auto
    have "mu_l2 p pos l2_reg = Inr (t, t)"
      using \<open>l2_reg > 0\<close> False reg t(1) by (simp add: mu_l2_def Let_def)
    moreover have "bget t i j = fl_add (bget pos i j) (fl_mul (Fin l2_reg) (D ! i ! j))"
      if "i < m" "j < c" for i j
      using bget_full [OF t(2) that] bget_full [OF pos' that] t(3) sce [OF that] that by simp
    ultimately show ?thesis using t(2) \<open>l2_reg > 0\<close> by auto
  qed
qed

lemma mu_multiplier:
  assumes gr: "mu_grad p = Inr (Some G)" and reg: "mu_reg_param p = Inr D"
    and G: "is_shape m c G" and D: "is_shape m c D"
    and pos: "is_shape ra ca pos" and ra: "ra = m \<or> ra = 1" and ca: "ca = c \<or> ca = 1"
  shows "\<exists>mult pos_obj.
           mu_update p pos gamma l1_reg l2_reg = bindE (mu_apply p mult) (\<lambda>p'. Inr (p', pos_obj)) \<and>
           is_shape m c mult \<and>
           (\<forall>i<m. \<forall>j<c. mult ! i ! j =
              fl_pow (fl_div (fl_relu (fl_sub (bget pos i j) (G ! i ! j)))
                        (mu_den l1_reg l2_reg (D ! i ! j) (bget pos i j))) gamma)"
proof -
  from bc2_shape [OF pos G bdim_into [OF ra] bdim_into [OF ca], of fl_sub]
  obtain d where d: "bc2 fl_sub pos G = Inr d" "is_shape m c d"
    "\<forall>i<m. \<forall>j<c. d ! i ! j = fl_sub (bget pos i j) (bget G i j)" by blast
  let ?m0 = "map (map fl_relu) d"
  have m0: "is_shape m c ?m0" using d(2) by (rule map_shape)
  have m0e: "?m0 ! i ! j = fl_relu (fl_sub (bget pos i j) (G ! i ! j))" if "i < m" "j < c" for i j
  proof -
    have "?m0 ! i ! j = bget ?m0 i j" using bget_full [OF m0 that] by simp
    also have "\<dots> = fl_relu (bget d i j)" using bget_map [OF d(2) _ _ that] by simp
    also have "\<dots> = fl_relu (fl_sub (bget pos i j) (G ! i ! j))"
      using bget_full [OF d(2) that] bget_full [OF G that] d(3) that by simp
    finally show ?thesis .
  qed
  define pos1 where
    "pos1 = (if l1_reg > 0 then map (map (\<lambda>x. fl_add x (Fin l1_reg))) pos else pos)"
  have p1: "is_shape ra ca pos1" using pos by (simp add: pos1_def map_shape)
  have p1e: "bget pos1 i j = (if l1_reg > 0 then fl_add (bget pos i j) (Fin l1_reg) else bget pos i j)"
    if "i < m" "j < c" for i j
    using bget_map [OF pos ra ca that] by (simp add: pos1_def)
  from mu_l2_shape [OF reg D p1 ra ca, of l2_reg]
  obtain pos2 pos_obj rb cb where l2: "mu_l2 p pos1 l2_reg = Inr (pos2, pos_obj)"
    and p2: "is_shape rb cb pos2" "rb = m \<or> rb = 1" "cb = c \<or> cb = 1"
    and p2e: "\<forall>i<m. \<forall>j<c. bget pos2 i j =
              (if l2_reg > 0 then fl_add (bget pos1 i j) (fl_mul (Fin l2_reg) (D ! i ! j))
               else bget pos1 i j)" by blast
  have den: "bget pos2 i j = mu_den l1_reg l2_reg (D ! i ! j) (bget pos i j)"
    if "i < m" "j < c" for i j
    using p2e p1e [OF that] that by (simp add: mu_den_def Let_def)
  from bc2_inplace_shape [OF m0 p2, of fl_div]
  obtain ratio where ratio: "bc2_inplace fl_div ?m0 pos2 = Inr ratio" "is_shape m c ratio"
    "\<forall>i<m. \<forall>j<c. ratio ! i ! j = fl_div (?m0 ! i ! j) (bget pos2 i j)" by blast
  define mult where "mult = (if gamma \<noteq> 1 then tpow ratio gamma else ratio)"
  have ms: "is_shape m c mult" using ratio(2) by (simp add: mult_def tpow_def map_shape)
  have me: "mult ! i ! j = fl_pow (ratio ! i ! j) gamma" if "i < m" "j < c" for i j
  proof (cases "gamma \<noteq> 1")
    case True
    have "tpow ratio gamma ! i ! j = bget (map (map (\<lambda>x. fl_pow x gamma)) ratio) i j"
      using bget_full [OF map_shape [OF ratio(2)] that] by (simp add: tpow_def)
    also have "\<dots> = fl_pow (bget ratio i j) gamma" using bget_map [OF ratio(2) _ _ that] by simp
    finally show ?thesis using True bget_full [OF ratio(2) that] by (simp add: mult_def)
  next
    case False
    then show ?thesis by (simp add: mult_def)
  qed
  have "mu_update p pos gamma l1_reg l2_reg = bindE (mu_apply p mult) (\<lambda>p'. Inr (p', pos_obj))"
    using gr d(1) l2 ratio(1)
    by (simp add: mu_update_def Let_def pos1_def [symmetric] mult_def)
  moreover have "mult ! i ! j =
              fl_pow (fl_div (fl_relu (fl_sub (bget pos i j) (G ! i ! j)))
                        (mu_den l1_reg l2_reg (D ! i ! j) (bget pos i j))) gamma"
    if "i < m" "j < c" for i j
    using me [OF that] ratio(3) m0e [OF that] den [OF that] that by simp
  ultimately show ?thesis using ms by blast
qed


lemma cat_ok: "bs \<noteq> [] \<Longrightarrow> list_all (\<lambda>b. length b = c) bs \<Longrightarrow> cat bs = Inr bs"
  by (cases bs) (auto simp add: cat_def list_all_iff)

lemma mapE_map: "(\<And>x. x \<in> set xs \<Longrightarrow> f x = Inr (g x)) \<Longrightarrow> mapE f xs = Inr (map g xs)"
  by (induction xs) simp_all

lemma block_grad_read: "block_ok c x \<Longrightarrow> block_grad x = Inr (grad_read x) \<and> length (grad_read x) = c"
  by (auto simp add: block_ok_def block_grad_def grad_read_def split: option.splits)

lemma mu_grad_list:
  assumes "ps \<noteq> []" and "list_all (block_ok c) ps"
  shows "mu_grad (PList ps) = Inr (Some (map grad_read ps)) \<and>
         is_shape (length ps) c (map grad_read ps)"
proof -
  from assms(2) have b: "\<And>x. x \<in> set ps \<Longrightarrow> block_grad x = Inr (grad_read x)"
    and l: "list_all (\<lambda>b. length b = c) (map grad_read ps)"
    by (auto simp add: list_all_iff dest: block_grad_read)
  from assms(1) have "map grad_read ps \<noteq> []" by simp
  from cat_ok [OF this l] mapE_map [of ps block_grad grad_read, OF b] l assms(1)
  show ?thesis by (simp add: mu_grad_def is_shape_def)
qed

lemma mu_reg_list:
  assumes "ps \<noteq> []" and "list_all (block_ok c) ps"
  shows "mu_reg_param (PList ps) = Inr (map data ps) \<and> is_shape (length ps) c (map data ps)"
proof -
  from assms(2) have l: "list_all (\<lambda>b. length b = c) (map data ps)"
    by (auto simp add: list_all_iff block_ok_def)
  from assms(1) have "map data ps \<noteq> []" by simp
  from cat_ok [OF this l] l assms(1) show ?thesis
    by (simp add: mu_reg_param_def is_shape_def)
qed

lemma expand_to_same: "length xs = n \<Longrightarrow> expand_to n xs = xs"
  by (cases "length xs = 1") (auto simp add: expand_to_one expand_to_keep intro!: nth_equalityI)

lemma mul_row_ok:
  assumes "i < length mult" and "length (mult ! i) = length (data x)"
  shows "mul_row mult (i, x) = Inr (x\<lparr>data := map2 fl_mul (data x) (mult ! i)\<rparr>)"
  using assms by (simp add: mul_row_def nrows_def Let_def expand_to_same)

lemma mapE_mul_row:
  assumes "k + length ps \<le> length mult" and "list_all (\<lambda>r. length r = c) mult"
    and "list_all (\<lambda>x. length (data x) = c) ps"
  shows "mapE (mul_row mult) (enumerate k ps) =
         Inr (map (\<lambda>(i, x). x\<lparr>data := map2 fl_mul (data x) (mult ! i)\<rparr>) (enumerate k ps))"
proof (rule mapE_map)
  fix ix assume mem: "ix \<in> set (enumerate k ps)"
  obtain i x where ix: "ix = (i, x)" by (cases ix)
  from mem ix have i: "k \<le> i" "i < k + length ps" and x: "x \<in> set ps"
    by (auto simp add: in_set_enumerate_eq)
  from i assms(1) have il: "i < length mult" by simp
  with assms(2) have "length (mult ! i) = c" by (simp add: list_all_length)
  moreover from x assms(3) have "length (data x) = c" by (simp add: list_all_iff)
  ultimately show "mul_row mult ix = Inr ((\<lambda>(i, x). x\<lparr>data := map2 fl_mul (data x) (mult ! i)\<rparr>) ix)"
    using mul_row_ok [OF il] ix by simp
qed

lemma mu_update_list:
  assumes ps: "ps \<noteq> []" and ok: "list_all (block_ok c) ps"
    and pos: "is_shape ra ca pos" and ra: "ra = length ps \<or> ra = 1" and ca: "ca = c \<or> ca = 1"
  shows "\<exists>ps' pos'. mu_update (PList ps) pos gamma l1_reg l2_reg = Inr (PList ps', pos') \<and>
           length ps' = length ps \<and>
           (\<forall>i<length ps. \<forall>j<c.
              data (ps' ! i) ! j =
                mu_entry gamma l1_reg l2_reg (data (ps ! i) ! j) (bget pos i j)
                  (grad_read (ps ! i) ! j))"
proof -
  let ?m = "length ps"
  from mu_grad_list [OF ps ok] have gr: "mu_grad (PList ps) = Inr (Some (map grad_read ps))"
    and G: "is_shape ?m c (map grad_read ps)" by simp_all
  from mu_reg_list [OF ps ok] have reg: "mu_reg_param (PList ps) = Inr (map data ps)"
    and D: "is_shape ?m c (map data ps)" by simp_all
  from mu_multiplier [OF gr reg G D pos ra ca, of gamma l1_reg l2_reg]
  obtain mult pos_obj where
    u: "mu_update (PList ps) pos gamma l1_reg l2_reg =
        bindE (mu_apply (PList ps) mult) (\<lambda>p'. Inr (p', pos_obj))"
    and ms: "is_shape ?m c mult"
    and me: "\<forall>i<?m. \<forall>j<c. mult ! i ! j =
              fl_pow (fl_div (fl_relu (fl_sub (bget pos i j) (map grad_read ps ! i ! j)))
                        (mu_den l1_reg l2_reg (map data ps ! i ! j) (bget pos i j))) gamma"
    by blast
  let ?ps' = "map (\<lambda>(i, x). x\<lparr>data := map2 fl_mul (data x) (mult ! i)\<rparr>) (enumerate 0 ps)"
  from ok have dl: "list_all (\<lambda>x. length (data x) = c) ps"
    by (simp add: list_all_iff block_ok_def)
  from ms have ml: "length mult = ?m" "list_all (\<lambda>r. length r = c) mult"
    by (simp_all add: is_shape_def)
  from mapE_mul_row [of 0 ps mult c] ml dl
  have "mu_apply (PList ps) mult = Inr (PList ?ps')" by (simp add: mu_apply_def)
  with u have r: "mu_update (PList ps) pos gamma l1_reg l2_reg = Inr (PList ?ps', pos_obj)" by simp
  have "data (?ps' ! i) ! j =
          mu_entry gamma l1_reg l2_reg (data (ps ! i) ! j) (bget pos i j) (grad_read (ps ! i) ! j)"
    if "i < ?m" "j < c" for i j
  proof -
    from that(1) dl have l1: "length (data (ps ! i)) = c" by (simp add: list_all_length)
    from that(1) ml have l2: "length (mult ! i) = c" by (simp add: list_all_length)
    have "data (?ps' ! i) = map2 fl_mul (data (ps ! i)) (mult ! i)"
      using that(1) by (simp add: nth_enumerate_eq)
    then have "data (?ps' ! i) ! j = fl_mul (data (ps ! i) ! j) (mult ! i ! j)"
      using l1 l2 that(2) by simp
    with me that show ?thesis by (simp add: mu_entry_def)
  qed
  with r show ?thesis by (intro exI [of _ ?ps'] exI [of _ pos_obj]) simp
qed

lemma mu_update_single:
  assumes d: "is_shape m c d" and g: "is_shape m c g"
    and pos: "is_shape ra ca pos" and ra: "ra = m \<or> ra = 1" and ca: "ca = c \<or> ca = 1"
  shows "\<exists>d' pos'. mu_update (PSingle d (Some g)) pos gamma l1_reg l2_reg
                     = Inr (PSingle d' (Some g), pos') \<and>
           is_shape m c d' \<and>
           (\<forall>i<m. \<forall>j<c.
              d' ! i ! j = mu_entry gamma l1_reg l2_reg (d ! i ! j) (bget pos i j) (g ! i ! j))"
proof -
  have gr: "mu_grad (PSingle d (Some g)) = Inr (Some g)" by (simp add: mu_grad_def)
  have reg: "mu_reg_param (PSingle d (Some g)) = Inr d" by (simp add: mu_reg_param_def)
  from mu_multiplier [OF gr reg g d pos ra ca, of gamma l1_reg l2_reg]
  obtain mult pos_obj where
    u: "mu_update (PSingle d (Some g)) pos gamma l1_reg l2_reg =
        bindE (mu_apply (PSingle d (Some g)) mult) (\<lambda>p'. Inr (p', pos_obj))"
    and ms: "is_shape m c mult"
    and me: "\<forall>i<m. \<forall>j<c. mult ! i ! j =
              fl_pow (fl_div (fl_relu (fl_sub (bget pos i j) (g ! i ! j)))
                        (mu_den l1_reg l2_reg (d ! i ! j) (bget pos i j))) gamma"
    by blast
  from bc2_inplace_shape [OF d ms, of fl_mul]
  obtain d' where d': "bc2_inplace fl_mul d mult = Inr d'" "is_shape m c d'"
    "\<forall>i<m. \<forall>j<c. d' ! i ! j = fl_mul (d ! i ! j) (bget mult i j)" by auto
  from u d'(1) have r: "mu_update (PSingle d (Some g)) pos gamma l1_reg l2_reg
                     = Inr (PSingle d' (Some g), pos_obj)"
    by (simp add: mu_apply_def)
  have "d' ! i ! j = mu_entry gamma l1_reg l2_reg (d ! i ! j) (bget pos i j) (g ! i ! j)"
    if "i < m" "j < c" for i j
    using d'(3) bget_full [OF ms that] me that by (simp add: mu_entry_def)
  with r d'(2) show ?thesis by blast
qed

lemma trainable_ok: "trainable c x \<Longrightarrow> block_ok c x \<and> grad_read x = grad_of x"
  by (simp add: trainable_def block_ok_def grad_read_def grad_of_def)

lemma list_trainable_ok: "list_all (trainable c) ps \<Longrightarrow> list_all (block_ok c) ps"
  by (simp add: list_all_iff trainable_ok)

lemma mu_den_spec:
  assumes "0 \<le> l1_reg" and "0 \<le> l2_reg" and "fl_is_real old" and "fl_is_real p"
  shows "mu_den l1_reg l2_reg old p = fl_add (fl_add p (Fin l1_reg)) (fl_mul (Fin l2_reg) old)"
proof -
  from assms(3,4) obtain a b where ab: "old = Fin a" "p = Fin b"
    by (cases old; cases p) (simp_all add: fl_is_real_def)
  show ?thesis
    using assms(1,2) unfolding ab
    by (cases "l1_reg = 0"; cases "l2_reg = 0")
      (simp_all add: mu_den_def fl_mul_Fin fl_zero_def)
qed

lemma mu_entry_is_spec:
  assumes "0 \<le> l1_reg" and "0 \<le> l2_reg" and "fl_is_real old" and "fl_is_real p"
  shows "mu_entry gamma l1_reg l2_reg old p g = mu_entry_spec gamma l1_reg l2_reg old p g"
  using mu_den_spec [OF assms] by (simp add: mu_entry_def mu_entry_spec_def)

lemma reg_nonneg:
  assumes "0 \<le> (alpha::real)" and "0 \<le> l1_ratio" and "l1_ratio \<le> 1"
  shows "0 \<le> alpha * l1_ratio" and "0 \<le> alpha * (1 - l1_ratio)"
proof -
  from assms(1,2) show "0 \<le> alpha * l1_ratio" by (rule mult_nonneg_nonneg)
  from assms(3) have "0 \<le> 1 - l1_ratio" by simp
  with assms(1) show "0 \<le> alpha * (1 - l1_ratio)" by (rule mult_nonneg_nonneg)
qed

text \<open>
  C4. For a call of \<open>_mu_update\<close> on a trainable factor, a collection of blocks
  that all require a gradient and have one, or a single tensor with a gradient,
  with a denominator \<open>pos\<close> that broadcasts to the factor and the coefficients
  \<open>l1_reg = alpha * l1_ratio\<close> and \<open>l2_reg = alpha * (1 - l1_ratio)\<close> of a
  regularisation strength \<open>alpha \<ge> 0\<close> split by \<open>l1_ratio\<close> in \<open>[0, 1]\<close>, the
  call succeeds and each updated entry whose old value and denominator are real
  numbers equals
  \<open>old * (relu(pos - grad) / (pos + l1_reg + l2_reg * old)) ^ gamma\<close>. For
  \<open>gamma = 1\<close> the power is the identity: the formula is
  \<open>old * (relu(pos - grad) / (pos + l1_reg + l2_reg * old))\<close>.
\<close>

theorem mu_update_formula:
  "(0 \<le> alpha \<and> 0 \<le> l1_ratio \<and> l1_ratio \<le> 1 \<and>
    ps \<noteq> [] \<and> list_all (trainable c) ps \<and> is_shape ra ca pos \<and>
    (ra = length ps \<or> ra = 1) \<and> (ca = c \<or> ca = 1) \<longrightarrow>
      (\<exists>ps' pos'. mu_update (PList ps) pos gamma (alpha * l1_ratio) (alpha * (1 - l1_ratio))
                     = Inr (PList ps', pos') \<and>
         length ps' = length ps \<and>
         (\<forall>i<length ps. \<forall>j<c.
            fl_is_real (data (ps ! i) ! j) \<and> fl_is_real (bget pos i j) \<longrightarrow>
            data (ps' ! i) ! j =
              mu_entry_spec gamma (alpha * l1_ratio) (alpha * (1 - l1_ratio))
                (data (ps ! i) ! j) (bget pos i j) (grad_of (ps ! i) ! j)))) \<and>
   (0 \<le> alpha \<and> 0 \<le> l1_ratio \<and> l1_ratio \<le> 1 \<and>
    is_shape m c d \<and> is_shape m c g \<and> is_shape ra ca pos \<and>
    (ra = m \<or> ra = 1) \<and> (ca = c \<or> ca = 1) \<longrightarrow>
      (\<exists>d' pos'. mu_update (PSingle d (Some g)) pos gamma (alpha * l1_ratio)
                     (alpha * (1 - l1_ratio))
                   = Inr (PSingle d' (Some g), pos') \<and>
         is_shape m c d' \<and>
         (\<forall>i<m. \<forall>j<c.
            fl_is_real (d ! i ! j) \<and> fl_is_real (bget pos i j) \<longrightarrow>
            d' ! i ! j =
              mu_entry_spec gamma (alpha * l1_ratio) (alpha * (1 - l1_ratio))
                (d ! i ! j) (bget pos i j) (g ! i ! j)))) \<and>
   mu_entry_spec 1 l1_reg l2_reg old p0 g0 =
     fl_mul old (fl_div (fl_relu (fl_sub p0 g0))
                   (fl_add (fl_add p0 (Fin l1_reg)) (fl_mul (Fin l2_reg) old)))"
proof (intro conjI impI)
  assume a: "0 \<le> alpha \<and> 0 \<le> l1_ratio \<and> l1_ratio \<le> 1 \<and>
    ps \<noteq> [] \<and> list_all (trainable c) ps \<and> is_shape ra ca pos \<and>
    (ra = length ps \<or> ra = 1) \<and> (ca = c \<or> ca = 1)"
  then have l1: "0 \<le> alpha * l1_ratio" and l2: "0 \<le> alpha * (1 - l1_ratio)"
    by (simp_all add: reg_nonneg)
  from a have tr: "list_all (trainable c) ps" by simp
  from a list_trainable_ok [OF tr]
    mu_update_list [of ps c ra ca pos gamma "alpha * l1_ratio" "alpha * (1 - l1_ratio)"]
  obtain ps' pos' where
    u: "mu_update (PList ps) pos gamma (alpha * l1_ratio) (alpha * (1 - l1_ratio))
        = Inr (PList ps', pos')"
    and len: "length ps' = length ps"
    and e: "\<forall>i<length ps. \<forall>j<c.
              data (ps' ! i) ! j =
                mu_entry gamma (alpha * l1_ratio) (alpha * (1 - l1_ratio))
                  (data (ps ! i) ! j) (bget pos i j) (grad_read (ps ! i) ! j)"
    by blast
  have "data (ps' ! i) ! j =
              mu_entry_spec gamma (alpha * l1_ratio) (alpha * (1 - l1_ratio))
                (data (ps ! i) ! j) (bget pos i j) (grad_of (ps ! i) ! j)"
    if "i < length ps" "j < c" "fl_is_real (data (ps ! i) ! j)" "fl_is_real (bget pos i j)"
    for i j
  proof -
    from tr that(1) have "trainable c (ps ! i)" by (simp add: list_all_length)
    then have "grad_read (ps ! i) = grad_of (ps ! i)" by (simp add: trainable_ok)
    with e that(1,2) mu_entry_is_spec [OF l1 l2 that(3,4)] show ?thesis by simp
  qed
  with u len
  show "\<exists>ps' pos'. mu_update (PList ps) pos gamma (alpha * l1_ratio) (alpha * (1 - l1_ratio))
                     = Inr (PList ps', pos') \<and>
         length ps' = length ps \<and>
         (\<forall>i<length ps. \<forall>j<c.
            fl_is_real (data (ps ! i) ! j) \<and> fl_is_real (bget pos i j) \<longrightarrow>
            data (ps' ! i) ! j =
              mu_entry_spec gamma (alpha * l1_ratio) (alpha * (1 - l1_ratio))
                (data (ps ! i) ! j) (bget pos i j) (grad_of (ps ! i) ! j))"
    by blast
next
  assume a: "0 \<le> alpha \<and> 0 \<le> l1_ratio \<and> l1_ratio \<le> 1 \<and>
    is_shape m c d \<and> is_shape m c g \<and> is_shape ra ca pos \<and>
    (ra = m \<or> ra = 1) \<and> (ca = c \<or> ca = 1)"
  then have l1: "0 \<le> alpha * l1_ratio" and l2: "0 \<le> alpha * (1 - l1_ratio)"
    by (simp_all add: reg_nonneg)
  from a mu_update_single [of m c d g ra ca pos gamma "alpha * l1_ratio" "alpha * (1 - l1_ratio)"]
  obtain d' pos' where
    u: "mu_update (PSingle d (Some g)) pos gamma (alpha * l1_ratio) (alpha * (1 - l1_ratio))
        = Inr (PSingle d' (Some g), pos')"
    and sh: "is_shape m c d'"
    and e: "\<forall>i<m. \<forall>j<c.
              d' ! i ! j = mu_entry gamma (alpha * l1_ratio) (alpha * (1 - l1_ratio))
                             (d ! i ! j) (bget pos i j) (g ! i ! j)"
    by blast
  have "d' ! i ! j =
              mu_entry_spec gamma (alpha * l1_ratio) (alpha * (1 - l1_ratio))
                (d ! i ! j) (bget pos i j) (g ! i ! j)"
    if "i < m" "j < c" "fl_is_real (d ! i ! j)" "fl_is_real (bget pos i j)" for i j
    using e that(1,2) mu_entry_is_spec [OF l1 l2 that(3,4)] by simp
  with u sh
  show "\<exists>d' pos'. mu_update (PSingle d (Some g)) pos gamma (alpha * l1_ratio)
                     (alpha * (1 - l1_ratio))
                   = Inr (PSingle d' (Some g), pos') \<and>
         is_shape m c d' \<and>
         (\<forall>i<m. \<forall>j<c.
            fl_is_real (d ! i ! j) \<and> fl_is_real (bget pos i j) \<longrightarrow>
            d' ! i ! j =
              mu_entry_spec gamma (alpha * l1_ratio) (alpha * (1 - l1_ratio))
                (d ! i ! j) (bget pos i j) (g ! i ! j))"
    by blast
next
  show "mu_entry_spec 1 l1_reg l2_reg old p0 g0 =
     fl_mul old (fl_div (fl_relu (fl_sub p0 g0))
                   (fl_add (fl_add p0 (Fin l1_reg)) (fl_mul (Fin l2_reg) old)))"
    by (simp add: mu_entry_spec_def)
qed

lemma ex_trainable_update:
  "mu_update (PList ex_trainable) [[Fin 2, Fin 4]] 1 (2 * (1 / 2)) (2 * (1 - 1 / 2)) =
   Inr (PList [\<lparr>data = [Fin (1 / 2), Fin (6 / 7)], grad = Some [Fin 0, Fin 1],
                 requires_grad = True\<rparr>,
               \<lparr>data = [Fin (3 / 2), Fin 0], grad = Some [Fin (- 1), Fin 5],
                 requires_grad = True\<rparr>],
        [[Fin 3, Fin 5]])"
  by code_simp

lemma ex_single_update:
  "mu_update (PSingle [[Fin 1, Fin 2]] (Some [[Fin 0, Fin 1]])) [[Fin 2]] 2
     (2 * (1 / 2)) (2 * (1 - 1 / 2)) =
   Inr (PSingle [[Fin (1 / 4), Fin (2 / 25)]] (Some [[Fin 0, Fin 1]]), [[Fin 3]])"
  by (simp add: run_simps)

theorem mu_update_formula_witness:
  "(0::real) \<le> 2 \<and> (0::real) \<le> 1 / 2 \<and> (1 / 2::real) \<le> 1 \<and>
   ex_trainable \<noteq> [] \<and> list_all (trainable 2) ex_trainable \<and>
   is_shape 1 2 [[Fin 2, Fin 4]] \<and>
   is_shape 1 2 [[Fin 1, Fin 2]] \<and> is_shape 1 2 [[Fin 0, Fin 1]] \<and> is_shape 1 1 [[Fin 2]] \<and>
   fl_is_real (Fin 3) \<and> fl_is_real (Fin 2) \<and>
   mu_update (PList ex_trainable) [[Fin 2, Fin 4]] 1 (2 * (1 / 2)) (2 * (1 - 1 / 2)) =
     Inr (PList [\<lparr>data = [Fin (1 / 2), Fin (6 / 7)], grad = Some [Fin 0, Fin 1],
                   requires_grad = True\<rparr>,
                 \<lparr>data = [Fin (3 / 2), Fin 0], grad = Some [Fin (- 1), Fin 5],
                   requires_grad = True\<rparr>],
          [[Fin 3, Fin 5]]) \<and>
   Fin (3 / 2) = mu_entry_spec 1 (2 * (1 / 2)) (2 * (1 - 1 / 2)) (Fin 3) (Fin 2) (Fin (- 1)) \<and>
   mu_update (PSingle [[Fin 1, Fin 2]] (Some [[Fin 0, Fin 1]])) [[Fin 2]] 2
       (2 * (1 / 2)) (2 * (1 - 1 / 2)) =
     Inr (PSingle [[Fin (1 / 4), Fin (2 / 25)]] (Some [[Fin 0, Fin 1]]), [[Fin 3]]) \<and>
   Fin (2 / 25) = mu_entry_spec 2 (2 * (1 / 2)) (2 * (1 - 1 / 2)) (Fin 2) (Fin 2) (Fin 1) \<and>
   mu_entry_spec 1 1 1 (Fin 3) (Fin 2) (Fin (- 1)) =
     fl_mul (Fin 3) (fl_div (fl_relu (fl_sub (Fin 2) (Fin (- 1))))
                       (fl_add (fl_add (Fin 2) (Fin 1)) (fl_mul (Fin 1) (Fin 3))))"
proof -
  have h: "ex_trainable \<noteq> []" "list_all (trainable 2) ex_trainable"
    "is_shape 1 2 [[Fin 2, Fin 4]]"
    "is_shape 1 2 [[Fin 1, Fin 2]]" "is_shape 1 2 [[Fin 0, Fin 1]]" "is_shape 1 1 [[Fin 2]]"
    "fl_is_real (Fin 3)" "fl_is_real (Fin 2)"
    by (simp_all add: ex_trainable_def trainable_def is_shape_def fl_is_real_def)
  have hl: "(0::real) \<le> 2 \<and> (0::real) \<le> 1 / 2 \<and> (1 / 2::real) \<le> 1 \<and>
    ex_trainable \<noteq> [] \<and> list_all (trainable 2) ex_trainable \<and> is_shape 1 2 [[Fin 2, Fin 4]] \<and>
    (1 = length ex_trainable \<or> (1::nat) = 1) \<and> ((2::nat) = 2 \<or> (2::nat) = 1)"
    using h by simp
  from mu_update_formula [where ps = ex_trainable and c = 2 and ra = 1 and ca = 2
      and pos = "[[Fin 2, Fin 4]]" and gamma = 1 and alpha = 2 and ?l1_ratio.0 = "1 / 2",
      THEN conjunct1, THEN mp, OF hl]
  obtain ps' pos' where
    l: "mu_update (PList ex_trainable) [[Fin 2, Fin 4]] 1 (2 * (1 / 2)) (2 * (1 - 1 / 2))
        = Inr (PList ps', pos')"
    and le: "\<forall>i<length ex_trainable. \<forall>j<2.
            fl_is_real (data (ex_trainable ! i) ! j) \<and> fl_is_real (bget [[Fin 2, Fin 4]] i j) \<longrightarrow>
            data (ps' ! i) ! j =
              mu_entry_spec 1 (2 * (1 / 2)) (2 * (1 - 1 / 2)) (data (ex_trainable ! i) ! j)
                (bget [[Fin 2, Fin 4]] i j) (grad_of (ex_trainable ! i) ! j)"
    by blast
  have i1: "1 < length ex_trainable" by (simp add: ex_trainable_def)
  have r1: "fl_is_real (data (ex_trainable ! 1) ! 0) \<and> fl_is_real (bget [[Fin 2, Fin 4]] 1 0)"
    by (simp add: ex_trainable_def fl_is_real_def bget_def nrows_def)
  from le i1 r1 have "data (ps' ! 1) ! 0 =
              mu_entry_spec 1 (2 * (1 / 2)) (2 * (1 - 1 / 2)) (data (ex_trainable ! 1) ! 0)
                (bget [[Fin 2, Fin 4]] 1 0) (grad_of (ex_trainable ! 1) ! 0)" by simp
  with l ex_trainable_update
  have a: "Fin (3 / 2) =
           mu_entry_spec 1 (2 * (1 / 2)) (2 * (1 - 1 / 2)) (Fin 3) (Fin 2) (Fin (- 1))"
    by (auto simp add: ex_trainable_def bget_def nrows_def grad_of_def)
  have hs: "(0::real) \<le> 2 \<and> (0::real) \<le> 1 / 2 \<and> (1 / 2::real) \<le> 1 \<and>
    is_shape 1 2 [[Fin 1, Fin 2]] \<and> is_shape 1 2 [[Fin 0, Fin 1]] \<and>
    is_shape 1 1 [[Fin 2]] \<and> ((1::nat) = 1 \<or> (1::nat) = 1) \<and> ((1::nat) = 2 \<or> (1::nat) = 1)"
    using h by simp
  from mu_update_formula [where m = 1 and c = 2 and ra = 1 and ca = 1
      and d = "[[Fin 1, Fin 2]]" and g = "[[Fin 0, Fin 1]]"
      and pos = "[[Fin 2]]" and gamma = 2 and alpha = 2 and ?l1_ratio.0 = "1 / 2",
      THEN conjunct2, THEN conjunct1, THEN mp, OF hs]
  obtain d' pos'' where
    s: "mu_update (PSingle [[Fin 1, Fin 2]] (Some [[Fin 0, Fin 1]])) [[Fin 2]] 2
          (2 * (1 / 2)) (2 * (1 - 1 / 2))
        = Inr (PSingle d' (Some [[Fin 0, Fin 1]]), pos'')"
    and se: "\<forall>i<1. \<forall>j<2.
            fl_is_real ([[Fin 1, Fin 2]] ! i ! j) \<and> fl_is_real (bget [[Fin 2]] i j) \<longrightarrow>
            d' ! i ! j = mu_entry_spec 2 (2 * (1 / 2)) (2 * (1 - 1 / 2))
               ([[Fin 1, Fin 2]] ! i ! j) (bget [[Fin 2]] i j) ([[Fin 0, Fin 1]] ! i ! j)"
    by blast
  have r2: "fl_is_real ([[Fin 1, Fin 2]] ! 0 ! 1) \<and> fl_is_real (bget [[Fin 2]] 0 1)"
    by (simp add: fl_is_real_def bget_def nrows_def)
  from se r2 have "d' ! 0 ! 1 = mu_entry_spec 2 (2 * (1 / 2)) (2 * (1 - 1 / 2))
               ([[Fin 1, Fin 2]] ! 0 ! 1) (bget [[Fin 2]] 0 1) ([[Fin 0, Fin 1]] ! 0 ! 1)"
    by simp
  with s ex_single_update
  have b: "Fin (2 / 25) =
           mu_entry_spec 2 (2 * (1 / 2)) (2 * (1 - 1 / 2)) (Fin 2) (Fin 2) (Fin 1)"
    by (auto simp add: bget_def nrows_def)
  from mu_update_formula [where ?l1_reg.0 = 1 and ?l2_reg.0 = 1 and old = "Fin 3"
      and ?p0.0 = "Fin 2" and ?g0.0 = "Fin (- 1)",
      THEN conjunct2, THEN conjunct2]
  have c: "mu_entry_spec 1 1 1 (Fin 3) (Fin 2) (Fin (- 1)) =
     fl_mul (Fin 3) (fl_div (fl_relu (fl_sub (Fin 2) (Fin (- 1))))
                       (fl_add (fl_add (Fin 2) (Fin 1)) (fl_mul (Fin 1) (Fin 3))))" .
  from h a b c ex_trainable_update ex_single_update show ?thesis by simp
qed

subsection \<open>Finite entries that are not negative\<close>

lemma fin_nonneg_simps [simp]:
  "fin_nonneg (Fin a) = (0 \<le> a)" "fin_nonneg NZero" "\<not> fin_nonneg PInf"
  "\<not> fin_nonneg NInf" "\<not> fin_nonneg NaN"
  by (auto simp add: fin_nonneg_def nonneg_def finite_fl_def fl_le_def)

lemma fin_pos_simps [simp]:
  "fin_pos (Fin a) = (0 < a)" "\<not> fin_pos NZero" "\<not> fin_pos PInf"
  "\<not> fin_pos NInf" "\<not> fin_pos NaN"
  by (auto simp add: fin_pos_def)

lemma finite_fl_simps [simp]:
  "finite_fl (Fin a)" "finite_fl NZero" "\<not> finite_fl PInf"
  "\<not> finite_fl NInf" "\<not> finite_fl NaN"
  by (auto simp add: finite_fl_def)













subsection \<open>The invocations of \<open>_mu_update\<close> in a run of \<open>fit\<close>\<close>
















subsection \<open>Non-negativity\<close>










end
